theory Spec2Isabelle
  imports Main "HOL-Library.Word"
begin

unbundle bit_operations_syntax

text \<open>
  A model of the thin-mode protocol engine of python-oracledb and of two of its
  helpers: the sanitizing of the connect data's CID (utils.pyx), the tables of the
  database types (types.pyx), and the class \<^verbatim>\<open>Protocol\<close> with its base class
  (protocol.pyx): breaks from outside, forced close, markers and the reset sequence,
  \<^verbatim>\<open>_receive_packet\<close>, \<^verbatim>\<open>_process_message\<close> and the two connect phases.
  Mutable objects are passed as values and returned changed; a call ends with a value,
  with an exception, or not at all. A Python \<^verbatim>\<open>str\<close> is kept as the bytes of its UTF-8
  encoding, one character of a \<open>string\<close> for each byte, so that a character of
  ASCII is one character here and the encoding of a text is the text itself. The modules the engine calls but that are not
  among the files modelled (transport, buffers, message codecs, errors, constants) are
  parameters, or are modelled from the specification where a text says so.
\<close>

section \<open>Connect constants (utils.pyx)\<close>

text \<open>
  Python's \<^verbatim>\<open>str.replace(old, new)\<close> for a pattern of one character: every
  occurrence of the character is replaced, nothing else changes.
\<close>

definition replace_char :: "char \<Rightarrow> char \<Rightarrow> string \<Rightarrow> string" where
  "replace_char old new s = map (\<lambda>c. if c = old then new else c) s"

text \<open>
  \<^verbatim>\<open>ConnectConstants._sanitize\<close>:
  \<^verbatim>\<open>value.replace("(", "?").replace(")", "?").replace("=", "?")\<close>.
\<close>

definition sanitize :: "string \<Rightarrow> string" where
  "sanitize v =
     replace_char (CHR ''='') (CHR ''?'')
       (replace_char (CHR '')'') (CHR ''?'')
         (replace_char (CHR ''('') (CHR ''?'') v))"

record connect_constants =
  program_name :: string
  machine_name :: string
  pid :: string
  user_name :: string
  terminal_name :: string
  sanitized_program_name :: string
  sanitized_machine_name :: string
  sanitized_user_name :: string
  full_version_num :: int

text \<open>
  \<^verbatim>\<open>ConnectConstants.__init__\<close>. What the constructor reads from its environment
  (\<^verbatim>\<open>sys.executable\<close>, \<^verbatim>\<open>socket.gethostname()\<close>, \<^verbatim>\<open>str(os.getpid())\<close>,
  \<^verbatim>\<open>getpass.getuser()\<close> and the three numbers matched in \<^verbatim>\<open>VERSION\<close>) is passed
  in as arguments.
\<close>

definition ConnectConstants_init ::
  "string \<Rightarrow> string \<Rightarrow> string \<Rightarrow> string \<Rightarrow> int \<Rightarrow> int \<Rightarrow> int \<Rightarrow> connect_constants" where
  "ConnectConstants_init executable hostname pid_str user major_num minor_num patch_num =
     \<lparr> program_name = executable,
       machine_name = hostname,
       pid = pid_str,
       user_name = user,
       terminal_name = ''unknown'',
       sanitized_program_name = sanitize executable,
       sanitized_machine_name = sanitize hostname,
       sanitized_user_name = sanitize user,
       full_version_num =
         push_bit 24 major_num OR push_bit 20 minor_num OR push_bit 12 patch_num \<rparr>"

text \<open>
  \<^verbatim>\<open>_get_connect_data\<close>. \<^verbatim>\<open>Description.build_connect_string\<close> is not part of the
  sources at hand and is the parameter \<open>build_connect_string\<close>.
\<close>

definition connect_data_cid :: "connect_constants \<Rightarrow> string" where
  "connect_data_cid constants =
     ''(PROGRAM='' @ sanitized_program_name constants @ '')'' @
     ''(HOST='' @ sanitized_machine_name constants @ '')'' @
     ''(USER='' @ sanitized_user_name constants @ '')''"

definition get_connect_data :: "(string \<Rightarrow> string) \<Rightarrow> connect_constants \<Rightarrow> string" where
  "get_connect_data build_connect_string constants =
     build_connect_string (connect_data_cid constants)"

section \<open>Database types (types.pyx)\<close>

text \<open>
  Python exceptions raised by the code modelled below. \<open>OSError\<close> stands for the
  errors of the socket module other than a timeout, \<open>Other_exception\<close> for any other
  class derived from \<^verbatim>\<open>Exception\<close>. \<open>KeyboardInterrupt\<close>, \<open>SystemExit\<close> and
  \<open>GeneratorExit\<close> derive from \<^verbatim>\<open>BaseException\<close> only.
\<close>

datatype exc_class =
  DatabaseError | OperationalError | InterfaceError | IntegrityError
  | DataError | NotSupportedError | InternalError | ProgrammingError

record error_obj =
  err_message :: "string option"
  err_code :: int
  err_offset :: int

datatype exn =
  Socket_timeout
  | IndexError
  | KeyError
  | OverflowError
  | ERR_CALL_TIMEOUT_EXCEEDED nat
  | ERR_CONNECTION_CLOSED string
  | ERR_INVALID_REDIRECT_DATA string
  | ERR_SERVER_VERSION_NOT_SUPPORTED
  | ERR_HTTPS_PROXY_REQUIRES_TCPS
  | ERR_ACCESS_TOKEN_REQUIRES_TCPS
  | ERR_PROXY_FAILURE string
  | ERR_ORACLE_TYPE_NOT_SUPPORTED int
  | ERR_ORACLE_TYPE_NAME_NOT_SUPPORTED string
  | Oracle_error exc_class error_obj
  | ERR_UNEXPECTED_END_OF_DATA
  | UnicodeDecodeError
  | OSError
  | Other_exception nat
  | KeyboardInterrupt
  | SystemExit
  | GeneratorExit

text \<open>
  \<^verbatim>\<open>isinstance(e, Exception)\<close>: what a clause \<^verbatim>\<open>except Exception\<close> catches.
\<close>

definition is_Exception :: "exn \<Rightarrow> bool" where
  "is_Exception e = (e \<noteq> KeyboardInterrupt \<and> e \<noteq> SystemExit \<and> e \<noteq> GeneratorExit)"

record db_type =
  num :: int
  name :: string
  default_size :: int
  native_num :: int
  ora_name :: string
  ora_type_num :: int
  csfrm :: int
  buffer_size_factor :: int

text \<open>
  The module-level tables \<^verbatim>\<open>db_type_by_num\<close> (a list), \<^verbatim>\<open>db_type_by_ora_name\<close>
  and \<^verbatim>\<open>db_type_by_ora_type_num\<close> (dictionaries).
\<close>

record type_tables =
  db_type_by_num :: "db_type option list"
  db_type_by_ora_name :: "string \<rightharpoonup> db_type"
  db_type_by_ora_type_num :: "int \<rightharpoonup> db_type"

text \<open>
  The constants \<^verbatim>\<open>DB_TYPE_NUM_*\<close> and \<^verbatim>\<open>NATIVE_TYPE_NUM_*\<close> are declared outside
  the sources at hand; they are parameters, looked up by the part of their name after
  the prefix.
\<close>

record base_constants =
  DB_TYPE_NUM_MIN :: int
  DB_TYPE_NUM_MAX :: int
  DB_TYPE_NUM :: "string \<Rightarrow> int"
  NATIVE_TYPE_NUM :: "string \<Rightarrow> int"

definition initial_tables :: "base_constants \<Rightarrow> type_tables" where
  "initial_tables K =
     \<lparr> db_type_by_num = replicate (nat (DB_TYPE_NUM_MAX K - DB_TYPE_NUM_MIN K + 1)) None,
       db_type_by_ora_name = Map.empty,
       db_type_by_ora_type_num = Map.empty \<rparr>"

text \<open>
  Python list indexing with an integer object: a negative index counts from the end,
  an index outside the list raises \<^verbatim>\<open>IndexError\<close>.
\<close>

definition py_list_index :: "'a list \<Rightarrow> int \<Rightarrow> exn + nat" where
  "py_list_index xs i =
     (let n = int (length xs); j = (if i < 0 then i + n else i)
      in if 0 \<le> j \<and> j < n then Inr (nat j) else Inl IndexError)"

definition py_list_set :: "'a list \<Rightarrow> int \<Rightarrow> 'a \<Rightarrow> exn + 'a list" where
  "py_list_set xs i v =
     (case py_list_index xs i of Inl e \<Rightarrow> Inl e | Inr j \<Rightarrow> Inr (xs[j := v]))"

text \<open>
  Indexing a list with a C \<^verbatim>\<open>uint32_t\<close>: no negative index exists, an index past
  the end raises \<^verbatim>\<open>IndexError\<close>.
\<close>

definition list_get_u32 :: "'a list \<Rightarrow> 32 word \<Rightarrow> exn + 'a" where
  "list_get_u32 xs i = (if unat i < length xs then Inr (xs ! unat i) else Inl IndexError)"

definition dict_get :: "('k \<rightharpoonup> 'v) \<Rightarrow> 'k \<Rightarrow> exn + 'v" where
  "dict_get d k = (case d k of None \<Rightarrow> Inl KeyError | Some v \<Rightarrow> Inr v)"

text \<open>
  \<^verbatim>\<open>DbType.__init__(num, name, ora_name, native_num=0, ora_type_num=0, default_size=0,
  csfrm=0, buffer_size_factor=0)\<close>. The key is a \<^verbatim>\<open>uint16_t\<close>: converting a Python
  integer outside its range raises \<^verbatim>\<open>OverflowError\<close>. The new object is entered in
  the three tables.
\<close>

definition DbType_init ::
  "base_constants \<Rightarrow> int \<Rightarrow> string \<Rightarrow> string \<Rightarrow> int \<Rightarrow> int \<Rightarrow> int \<Rightarrow> int \<Rightarrow> int \<Rightarrow>
   type_tables \<Rightarrow> exn + (db_type \<times> type_tables)" where
  "DbType_init K num' name' ora_name' native_num' ora_type_num' default_size' csfrm'
       buffer_size_factor' T =
     (let ora_type_key = csfrm' * 256 + ora_type_num' in
      if ora_type_key < 0 \<or> 65535 < ora_type_key then Inl OverflowError
      else
        let self = \<lparr> num = num', name = name', default_size = default_size',
                      native_num = native_num', ora_name = ora_name',
                      ora_type_num = ora_type_num', csfrm = csfrm',
                      buffer_size_factor = buffer_size_factor' \<rparr>;
            idx = (if num' \<noteq> 0 then num' - DB_TYPE_NUM_MIN K else num')
        in case py_list_set (db_type_by_num T) idx (Some self) of
             Inl e \<Rightarrow> Inl e
           | Inr by_num \<Rightarrow>
               Inr (self,
                    T \<lparr> db_type_by_num := by_num,
                        db_type_by_ora_name := (db_type_by_ora_name T)(ora_name' \<mapsto> self),
                        db_type_by_ora_type_num :=
                          (db_type_by_ora_type_num T)(ora_type_key \<mapsto> self) \<rparr>))"

text \<open>
  \<^verbatim>\<open>DbType._from_num(uint32_t num)\<close>. The subtraction is C arithmetic on
  \<^verbatim>\<open>uint32_t\<close>; the table is a list, so the lookup raises \<^verbatim>\<open>IndexError\<close>, which
  \<^verbatim>\<open>except KeyError\<close> does not catch, or returns the entry, which may be \<^verbatim>\<open>None\<close>.
\<close>

definition from_num :: "base_constants \<Rightarrow> type_tables \<Rightarrow> 32 word \<Rightarrow> exn + db_type option" where
  "from_num K T num' =
     (let idx = (if num' \<noteq> 0 then num' - word_of_int (DB_TYPE_NUM_MIN K) else num')
      in case list_get_u32 (db_type_by_num T) idx of
           Inr v \<Rightarrow> Inr v
         | Inl KeyError \<Rightarrow> Inl (ERR_ORACLE_TYPE_NOT_SUPPORTED (uint idx))
         | Inl e \<Rightarrow> Inl e)"

text \<open>\<^verbatim>\<open>DbType._from_ora_name(str name)\<close>.\<close>

definition from_ora_name :: "type_tables \<Rightarrow> string \<Rightarrow> exn + db_type" where
  "from_ora_name T name' =
     (case dict_get (db_type_by_ora_name T) name' of
        Inr v \<Rightarrow> Inr v
      | Inl KeyError \<Rightarrow> Inl (ERR_ORACLE_TYPE_NAME_NOT_SUPPORTED name')
      | Inl e \<Rightarrow> Inl e)"

text \<open>
  \<^verbatim>\<open>DbType._from_ora_type_and_csfrm(uint8_t ora_type_num, uint8_t csfrm)\<close>. The key
  is computed in C \<^verbatim>\<open>int\<close> arithmetic and is at most 65535, so the \<^verbatim>\<open>uint16_t\<close>
  holds it.
\<close>

definition from_ora_type_and_csfrm :: "type_tables \<Rightarrow> 8 word \<Rightarrow> 8 word \<Rightarrow> exn + db_type" where
  "from_ora_type_and_csfrm T ora_type_num' csfrm' =
     (let ora_type_key = uint csfrm' * 256 + uint ora_type_num'
      in case dict_get (db_type_by_ora_type_num T) ora_type_key of
           Inr v \<Rightarrow> Inr v
         | Inl KeyError \<Rightarrow> Inl (ERR_ORACLE_TYPE_NOT_SUPPORTED (uint ora_type_num'))
         | Inl e \<Rightarrow> Inl e)"

text \<open>
  The module-level registrations, in source order, each with the arguments of its call
  \<^verbatim>\<open>DbType(num, name, ora_name, native_num, ora_type_num, default_size, csfrm,
  buffer_size_factor)\<close>.
\<close>

definition dbt :: "int \<Rightarrow> string \<Rightarrow> string \<Rightarrow> int \<Rightarrow> int \<Rightarrow> int \<Rightarrow> int \<Rightarrow> int \<Rightarrow> db_type" where
  "dbt n nm onm nat_n otn ds cs bsf =
     \<lparr> num = n, name = nm, default_size = ds, native_num = nat_n, ora_name = onm,
       ora_type_num = otn, csfrm = cs, buffer_size_factor = bsf \<rparr>"

definition DB_TYPE_BINARY_INTEGER :: "base_constants \<Rightarrow> db_type" where
  "DB_TYPE_BINARY_INTEGER K =
     dbt (DB_TYPE_NUM K ''BINARY_INTEGER'') ''DB_TYPE_BINARY_INTEGER'' ''BINARY_INTEGER''
       (NATIVE_TYPE_NUM K ''INT64'') 3 0 0 22"

definition DB_TYPE_BOOLEAN :: "base_constants \<Rightarrow> db_type" where
  "DB_TYPE_BOOLEAN K =
     dbt (DB_TYPE_NUM K ''BOOLEAN'') ''DB_TYPE_BOOLEAN'' ''BOOLEAN''
       (NATIVE_TYPE_NUM K ''BOOLEAN'') 252 0 0 4"

definition DB_TYPE_NUMBER :: "base_constants \<Rightarrow> db_type" where
  "DB_TYPE_NUMBER K =
     dbt (DB_TYPE_NUM K ''NUMBER'') ''DB_TYPE_NUMBER'' ''NUMBER'' (NATIVE_TYPE_NUM K ''BYTES'') 2 0 0 22"

definition registrations :: "base_constants \<Rightarrow> db_type list" where
  "registrations K =
     [dbt (DB_TYPE_NUM K ''BFILE'') ''DB_TYPE_BFILE'' ''BFILE'' (NATIVE_TYPE_NUM K ''LOB'') 114 0 0 0,
      dbt (DB_TYPE_NUM K ''BINARY_DOUBLE'') ''DB_TYPE_BINARY_DOUBLE'' ''BINARY_DOUBLE''
        (NATIVE_TYPE_NUM K ''DOUBLE'') 101 0 0 8,
      dbt (DB_TYPE_NUM K ''BINARY_FLOAT'') ''DB_TYPE_BINARY_FLOAT'' ''BINARY_FLOAT''
        (NATIVE_TYPE_NUM K ''FLOAT'') 100 0 0 4,
      DB_TYPE_BINARY_INTEGER K,
      dbt (DB_TYPE_NUM K ''BLOB'') ''DB_TYPE_BLOB'' ''BLOB'' (NATIVE_TYPE_NUM K ''LOB'') 113 0 0 112,
      DB_TYPE_BOOLEAN K,
      dbt (DB_TYPE_NUM K ''CHAR'') ''DB_TYPE_CHAR'' ''CHAR'' (NATIVE_TYPE_NUM K ''BYTES'') 96 2000 1 4,
      dbt (DB_TYPE_NUM K ''CLOB'') ''DB_TYPE_CLOB'' ''CLOB'' (NATIVE_TYPE_NUM K ''LOB'') 112 0 1 112,
      dbt (DB_TYPE_NUM K ''CURSOR'') ''DB_TYPE_CURSOR'' ''CURSOR'' (NATIVE_TYPE_NUM K ''STMT'') 102 0 0 4,
      dbt (DB_TYPE_NUM K ''DATE'') ''DB_TYPE_DATE'' ''DATE'' (NATIVE_TYPE_NUM K ''TIMESTAMP'') 12 0 0 7,
      dbt (DB_TYPE_NUM K ''INTERVAL_DS'') ''DB_TYPE_INTERVAL_DS'' ''INTERVAL DAY TO SECOND''
        (NATIVE_TYPE_NUM K ''INTERVAL_DS'') 183 0 0 11,
      dbt (DB_TYPE_NUM K ''INTERVAL_YM'') ''DB_TYPE_INTERVAL_YM'' ''INTERVAL YEAR TO MONTH''
        (NATIVE_TYPE_NUM K ''INTERVAL_YM'') 182 0 0 0,
      dbt (DB_TYPE_NUM K ''JSON'') ''DB_TYPE_JSON'' ''JSON'' (NATIVE_TYPE_NUM K ''JSON'') 119 0 0 0,
      dbt (DB_TYPE_NUM K ''LONG_VARCHAR'') ''DB_TYPE_LONG'' ''LONG''
        (NATIVE_TYPE_NUM K ''BYTES'') 8 0 1 2147483647,
      dbt (DB_TYPE_NUM K ''LONG_NVARCHAR'') ''DB_TYPE_LONG_NVARCHAR'' ''LONG NVARCHAR''
        (NATIVE_TYPE_NUM K ''BYTES'') 8 0 2 2147483647,
      dbt (DB_TYPE_NUM K ''LONG_RAW'') ''DB_TYPE_LONG_RAW'' ''LONG RAW''
        (NATIVE_TYPE_NUM K ''BYTES'') 24 0 0 2147483647,
      dbt (DB_TYPE_NUM K ''NCHAR'') ''DB_TYPE_NCHAR'' ''NCHAR'' (NATIVE_TYPE_NUM K ''BYTES'') 96 2000 2 4,
      dbt (DB_TYPE_NUM K ''NCLOB'') ''DB_TYPE_NCLOB'' ''NCLOB'' (NATIVE_TYPE_NUM K ''LOB'') 112 0 2 112,
      DB_TYPE_NUMBER K,
      dbt (DB_TYPE_NUM K ''NVARCHAR'') ''DB_TYPE_NVARCHAR'' ''NVARCHAR2''
        (NATIVE_TYPE_NUM K ''BYTES'') 1 4000 2 4,
      dbt (DB_TYPE_NUM K ''OBJECT'') ''DB_TYPE_OBJECT'' ''OBJECT'' (NATIVE_TYPE_NUM K ''OBJECT'') 109 0 0 0,
      dbt (DB_TYPE_NUM K ''RAW'') ''DB_TYPE_RAW'' ''RAW'' (NATIVE_TYPE_NUM K ''BYTES'') 23 4000 0 1,
      dbt (DB_TYPE_NUM K ''ROWID'') ''DB_TYPE_ROWID'' ''ROWID'' (NATIVE_TYPE_NUM K ''ROWID'') 11 0 0 18,
      dbt (DB_TYPE_NUM K ''TIMESTAMP'') ''DB_TYPE_TIMESTAMP'' ''TIMESTAMP''
        (NATIVE_TYPE_NUM K ''TIMESTAMP'') 180 0 0 11,
      dbt (DB_TYPE_NUM K ''TIMESTAMP_LTZ'') ''DB_TYPE_TIMESTAMP_LTZ'' ''TIMESTAMP WITH LOCAL TZ''
        (NATIVE_TYPE_NUM K ''TIMESTAMP'') 231 0 0 11,
      dbt (DB_TYPE_NUM K ''TIMESTAMP_TZ'') ''DB_TYPE_TIMESTAMP_TZ'' ''TIMESTAMP WITH TZ''
        (NATIVE_TYPE_NUM K ''TIMESTAMP'') 181 0 0 13,
      dbt (DB_TYPE_NUM K ''UNKNOWN'') ''DB_TYPE_UNKNOWN'' ''UNKNOWN'' 0 0 0 0 0,
      dbt (DB_TYPE_NUM K ''UROWID'') ''DB_TYPE_UROWID'' ''UROWID'' (NATIVE_TYPE_NUM K ''BYTES'') 208 0 0 0,
      dbt (DB_TYPE_NUM K ''VARCHAR'') ''DB_TYPE_VARCHAR'' ''VARCHAR2''
        (NATIVE_TYPE_NUM K ''BYTES'') 1 4000 1 4,
      dbt (DB_TYPE_NUM K ''VECTOR'') ''DB_TYPE_VECTOR'' ''VECTOR'' (NATIVE_TYPE_NUM K ''VECTOR'') 127 0 0 0,
      dbt (DB_TYPE_NUM K ''XMLTYPE'') ''DB_TYPE_XMLTYPE'' ''XMLTYPE''
        (NATIVE_TYPE_NUM K ''BYTES'') 109 0 1 2147483647]"

text \<open>Running the registrations in order; an exception stops the module's import.\<close>

fun register_all :: "base_constants \<Rightarrow> db_type list \<Rightarrow> type_tables \<Rightarrow> exn + type_tables" where
  "register_all K [] T = Inr T"
| "register_all K (a # as) T =
     (case DbType_init K (num a) (name a) (ora_name a) (native_num a) (ora_type_num a)
             (default_size a) (csfrm a) (buffer_size_factor a) T of
        Inl e \<Rightarrow> Inl e
      | Inr (self, T') \<Rightarrow> register_all K as T')"

text \<open>
  The whole module initialisation: the table of \<^verbatim>\<open>None\<close> entries, the registrations,
  then the additional aliases, which enter existing types under further names.
\<close>

definition add_alias :: "string \<Rightarrow> db_type \<Rightarrow> type_tables \<Rightarrow> type_tables" where
  "add_alias alias target T =
     T \<lparr> db_type_by_ora_name := (db_type_by_ora_name T)(alias \<mapsto> target) \<rparr>"

definition module_init :: "base_constants \<Rightarrow> exn + type_tables" where
  "module_init K =
     (case register_all K (registrations K) (initial_tables K) of
        Inl e \<Rightarrow> Inl e
      | Inr T \<Rightarrow>
          Inr (add_alias ''SMALLINT'' (DB_TYPE_NUMBER K)
              (add_alias ''REAL'' (DB_TYPE_NUMBER K)
              (add_alias ''PL/SQL PLS INTEGER'' (DB_TYPE_BINARY_INTEGER K)
              (add_alias ''PL/SQL BINARY INTEGER'' (DB_TYPE_BINARY_INTEGER K)
              (add_alias ''PL/SQL BOOLEAN'' (DB_TYPE_BOOLEAN K)
              (add_alias ''INTEGER'' (DB_TYPE_NUMBER K)
              (add_alias ''FLOAT'' (DB_TYPE_NUMBER K)
              (add_alias ''DOUBLE PRECISION'' (DB_TYPE_NUMBER K) T)))))))))"

section \<open>The protocol engine (protocol.pyx)\<close>

text \<open>
  The model follows the synchronous class \<^verbatim>\<open>Protocol\<close>. The class
  \<^verbatim>\<open>BaseAsyncProtocol\<close> repeats \<^verbatim>\<open>_connect_phase_two\<close> and the end of
  \<^verbatim>\<open>_process_message\<close> (transaction flag, retry, raising of the server error) with
  the same statements, and shares \<^verbatim>\<open>_break_external\<close>, \<^verbatim>\<open>_force_close\<close> and
  \<^verbatim>\<open>_send_marker\<close> through the base class.
\<close>

subsection \<open>Packets, capabilities and the state of a connection\<close>

text \<open>
  Modelled from the spec: the packet type and marker type numbers are declared in the
  thin constants file, which is not among the sources at hand; the values are those of
  the specification's section on packet framing.
\<close>

definition TNS_PACKET_TYPE_CONNECT :: nat where "TNS_PACKET_TYPE_CONNECT = 1"
definition TNS_PACKET_TYPE_ACCEPT :: nat where "TNS_PACKET_TYPE_ACCEPT = 2"
definition TNS_PACKET_TYPE_REFUSE :: nat where "TNS_PACKET_TYPE_REFUSE = 4"
definition TNS_PACKET_TYPE_REDIRECT :: nat where "TNS_PACKET_TYPE_REDIRECT = 5"
definition TNS_PACKET_TYPE_DATA :: nat where "TNS_PACKET_TYPE_DATA = 6"
definition TNS_PACKET_TYPE_MARKER :: nat where "TNS_PACKET_TYPE_MARKER = 12"

definition TNS_MARKER_TYPE_INTERRUPT :: nat where "TNS_MARKER_TYPE_INTERRUPT = 1"
definition TNS_MARKER_TYPE_RESET :: nat where "TNS_MARKER_TYPE_RESET = 2"
definition TNS_MARKER_TYPE_BREAK :: nat where "TNS_MARKER_TYPE_BREAK = 3"

text \<open>
  A packet: its type and flags from the header, and the bytes after the header. For a
  packet the engine writes, the payload lists the bytes written between
  \<^verbatim>\<open>start_request\<close> and \<^verbatim>\<open>end_request\<close>.
\<close>

record packet =
  packet_type :: nat
  packet_flags :: nat
  payload :: "nat list"

text \<open>What the socket delivers to one blocking read: a packet, or a timeout.\<close>

datatype in_event = Packet packet | Recv_timeout

text \<open>
  The write buffer a packet goes through: the connection's own \<^verbatim>\<open>_write_buf\<close>, or a
  \<^verbatim>\<open>WriteBuffer\<close> created for one marker.
\<close>

datatype write_buffer = Conn_write_buf | Fresh_write_buf

text \<open>What the engine does to the network, in order.\<close>

datatype out_event =
  Oob_break
  | Sent write_buffer packet
  | Disconnect
  | Tcp_connect string int
  | Proxy_connect string int
  | Tls_negotiate
  | Tls_renegotiate

record capabilities =
  protocol_version :: nat
  sdu :: nat
  charset_id :: nat
  ncharset_id :: nat
  supports_oob :: bool

text \<open>
  The fields of \<^verbatim>\<open>BaseProtocol\<close> and what the engine reads of its buffers.
  \<open>transport\<close>, \<open>rb_transport\<close> and \<open>wb_transport\<close> say whether
  \<^verbatim>\<open>self._transport\<close>, \<^verbatim>\<open>self._read_buf._transport\<close> and
  \<^verbatim>\<open>self._write_buf._transport\<close> hold the transport object (rather than
  \<^verbatim>\<open>None\<close>); \<open>socket_open\<close> says whether that one transport object still holds
  its socket (its own \<^verbatim>\<open>_transport\<close>). \<open>pending\<close> is what the socket will deliver
  to the coming reads and \<open>sent\<close> is the trace of what was done to the network.
\<close>

record protocol =
  transport :: bool
  socket_open :: bool
  max_packet_size :: nat
  caps :: capabilities
  rb_transport :: bool
  current_packet :: packet
  pending :: "in_event list"
  wb_transport :: bool
  packet_sent :: bool
  in_connect :: bool
  txn_in_progress :: bool
  break_in_progress :: bool
  sent :: "out_event list"

text \<open>
  The result of a call that works on a state \<open>'s\<close>: it returns a value, raises an
  exception (the state changes made before the raise persist), or never returns (the
  read blocks for ever on a silent socket, or the recursion does not end).
\<close>

datatype ('a, 's) outcome = Returns 'a 's | Raises exn 's | No_return

subsection \<open>Transport and buffers\<close>

text \<open>
  \<^verbatim>\<open>Transport\<close>, \<^verbatim>\<open>ReadBuffer\<close> and \<^verbatim>\<open>WriteBuffer\<close> are not among the sources
  at hand; what the engine needs of them is modelled in this subsection.
\<close>

text \<open>
  Modelled from the spec: the transport's \<^verbatim>\<open>send\<close>. A buffer can write when it
  holds the transport and the transport holds its socket; the connection's write buffer
  has a reference of its own, a write buffer made for one marker gets the protocol's.
\<close>

definition can_write :: "write_buffer \<Rightarrow> protocol \<Rightarrow> bool" where
  "can_write buf s =
     (case buf of
        Conn_write_buf \<Rightarrow> wb_transport s \<and> socket_open s
      | Fresh_write_buf \<Rightarrow> transport s \<and> socket_open s)"

text \<open>
  Modelled from the spec: \<^verbatim>\<open>WriteBuffer.start_request\<close>. The buffer's
  \<^verbatim>\<open>_packet_sent\<close> says that a request has actually been written; starting a
  request clears it. The flag of a write buffer made for one marker is lost with the
  buffer.
\<close>

definition start_request :: "write_buffer \<Rightarrow> protocol \<Rightarrow> protocol" where
  "start_request buf s =
     (case buf of Conn_write_buf \<Rightarrow> s \<lparr> packet_sent := False \<rparr> | Fresh_write_buf \<Rightarrow> s)"

text \<open>
  Modelled from the spec: \<^verbatim>\<open>WriteBuffer.end_request\<close>, which writes the packet to
  the transport and sets \<^verbatim>\<open>_packet_sent\<close>. An operation on a connection that was
  closed fails with \<^verbatim>\<open>ERR_CONNECTION_CLOSED\<close>.
\<close>

definition write_packet :: "write_buffer \<Rightarrow> packet \<Rightarrow> protocol \<Rightarrow> (unit, protocol) outcome" where
  "write_packet buf p s =
     (if can_write buf s then
        Returns () (s \<lparr> sent := sent s @ [Sent buf p],
                        packet_sent :=
                          (case buf of Conn_write_buf \<Rightarrow> True
                           | Fresh_write_buf \<Rightarrow> packet_sent s) \<rparr>)
      else Raises (ERR_CONNECTION_CLOSED []) s)"

text \<open>
  Modelled from the spec: \<^verbatim>\<open>Transport.send_oob_break\<close>, the single urgent byte,
  sent through the protocol's reference to the transport.
\<close>

definition send_oob_break :: "protocol \<Rightarrow> (unit, protocol) outcome" where
  "send_oob_break s =
     (if transport s \<and> socket_open s then Returns () (s \<lparr> sent := sent s @ [Oob_break] \<rparr>)
      else Raises (ERR_CONNECTION_CLOSED []) s)"

text \<open>
  Modelled from the spec: \<^verbatim>\<open>ReadBuffer.wait_for_packets_sync\<close>. A read takes the
  next thing the socket delivers: a packet, which becomes the current packet, or a
  timeout, which is raised as \<^verbatim>\<open>socket.timeout\<close>. With nothing to come the read
  blocks. On a connection that was closed it fails with \<^verbatim>\<open>ERR_CONNECTION_CLOSED\<close>.
\<close>

definition wait_for_packets_sync :: "protocol \<Rightarrow> (unit, protocol) outcome" where
  "wait_for_packets_sync s =
     (if \<not> (rb_transport s \<and> socket_open s) then Raises (ERR_CONNECTION_CLOSED []) s
      else case pending s of
             [] \<Rightarrow> No_return
           | Recv_timeout # rest \<Rightarrow> Raises Socket_timeout (s \<lparr> pending := rest \<rparr>)
           | Packet p # rest \<Rightarrow> Returns () (s \<lparr> current_packet := p, pending := rest \<rparr>))"

text \<open>
  Modelled from the spec: \<^verbatim>\<open>ReadBuffer.reset_packets\<close>, which resets the cursor
  over the packets saved for a replay; it touches nothing of the state kept here.
\<close>

definition reset_packets :: "protocol \<Rightarrow> protocol" where
  "reset_packets s = s"

text \<open>
  Modelled from the spec: the typed readers of \<^verbatim>\<open>ReadBuffer\<close>, on the payload of
  the current packet. The marker type of a marker packet is read as the code does: two
  bytes skipped, one byte read (\<^verbatim>\<open>skip_raw_bytes(2)\<close>, \<^verbatim>\<open>read_ub1\<close>). A marker
  packet has three payload bytes; a shorter one has no marker type.
\<close>

definition read_marker_type :: "packet \<Rightarrow> nat option" where
  "read_marker_type p = (case drop 2 (payload p) of [] \<Rightarrow> None | b # rest \<Rightarrow> Some b)"

text \<open>
  \<^verbatim>\<open>bytes.decode()\<close> decodes UTF-8 and raises \<^verbatim>\<open>UnicodeDecodeError\<close> on bytes
  that are not the UTF-8 encoding of a text. \<open>utf8_valid\<close> is the test the decoder
  makes: a byte below 0x80 stands alone; a lead byte 0xC2 to 0xDF takes one
  continuation byte, 0xE0 to 0xEF two, 0xF0 to 0xF4 three; a continuation byte lies in
  0x80 to 0xBF, and the first one after 0xE0, 0xED, 0xF0 and 0xF4 is restricted further
  (no overlong forms, no surrogates, nothing above U+10FFFF). \<open>decode_bytes\<close> is the
  text of bytes that pass the test: the same bytes, as characters.
\<close>

definition utf8_cont :: "nat \<Rightarrow> bool" where
  "utf8_cont b = (128 \<le> b \<and> b \<le> 191)"

definition utf8_second :: "nat \<Rightarrow> nat \<Rightarrow> bool" where
  "utf8_second lead b =
     (if lead = 224 then 160 \<le> b \<and> b \<le> 191
      else if lead = 237 then 128 \<le> b \<and> b \<le> 159
      else if lead = 240 then 144 \<le> b \<and> b \<le> 191
      else if lead = 244 then 128 \<le> b \<and> b \<le> 143
      else utf8_cont b)"

fun utf8_valid :: "nat list \<Rightarrow> bool" where
  "utf8_valid [] = True"
| "utf8_valid (b # bs) =
     (if b < 128 then utf8_valid bs
      else if 194 \<le> b \<and> b \<le> 223 then
        (case bs of
           c1 # r \<Rightarrow> utf8_cont c1 \<and> utf8_valid r
         | _ \<Rightarrow> False)
      else if 224 \<le> b \<and> b \<le> 239 then
        (case bs of
           c1 # c2 # r \<Rightarrow> utf8_second b c1 \<and> utf8_cont c2 \<and> utf8_valid r
         | _ \<Rightarrow> False)
      else if 240 \<le> b \<and> b \<le> 244 then
        (case bs of
           c1 # c2 # c3 # r \<Rightarrow>
             utf8_second b c1 \<and> utf8_cont c2 \<and> utf8_cont c3 \<and> utf8_valid r
         | _ \<Rightarrow> False)
      else False)"

definition decode_bytes :: "nat list \<Rightarrow> string" where
  "decode_bytes bs = map char_of bs"

text \<open>
  Modelled from the spec: the typed readers of \<^verbatim>\<open>ReadBuffer\<close>, on the payload of
  the current packet. The text of a REFUSE packet is read as the code does: two bytes
  skipped, a 16-bit length (most significant byte first), then that many bytes,
  decoded; a length of zero gives no text. \<open>None\<close> when the read raises: the packet
  is shorter than its own length says, or the bytes cannot be decoded;
  \<open>read_refuse_error\<close> is the exception raised then.
\<close>

definition read_refuse_message :: "packet \<Rightarrow> string option option" where
  "read_refuse_message p =
     (case drop 2 (payload p) of
        hi # lo # rest \<Rightarrow>
          (let refuse_message_len = (hi * 256 + lo) mod 65536
           in if refuse_message_len = 0 then Some None
              else if refuse_message_len \<le> length rest
                then (if utf8_valid (take refuse_message_len rest)
                      then Some (Some (decode_bytes (take refuse_message_len rest)))
                      else None)
              else None)
      | _ \<Rightarrow> None)"

definition read_refuse_error :: "packet \<Rightarrow> exn" where
  "read_refuse_error p =
     (case drop 2 (payload p) of
        hi # lo # rest \<Rightarrow>
          if (hi * 256 + lo) mod 65536 \<le> length rest then UnicodeDecodeError
          else ERR_UNEXPECTED_END_OF_DATA
      | _ \<Rightarrow> ERR_UNEXPECTED_END_OF_DATA)"

subsection \<open>BaseProtocol\<close>

definition marker_packet :: "nat \<Rightarrow> packet" where
  "marker_packet marker_type =
     \<lparr> packet_type = TNS_PACKET_TYPE_MARKER, packet_flags = 0,
       payload = [1, 0, marker_type] \<rparr>"

text \<open>\<^verbatim>\<open>BaseProtocol._send_marker(buf, marker_type)\<close>.\<close>

definition send_marker :: "write_buffer \<Rightarrow> nat \<Rightarrow> protocol \<Rightarrow> (unit, protocol) outcome" where
  "send_marker buf marker_type s = write_packet buf (marker_packet marker_type) (start_request buf s)"

text \<open>\<^verbatim>\<open>BaseProtocol._break_external\<close>.\<close>

definition break_external :: "protocol \<Rightarrow> (unit, protocol) outcome" where
  "break_external s =
     (if \<not> break_in_progress s then
        (let s1 = s \<lparr> break_in_progress := True \<rparr>
         in if supports_oob (caps s1) then send_oob_break s1
            else send_marker Fresh_write_buf TNS_MARKER_TYPE_INTERRUPT s1)
      else Returns () s)"

text \<open>\<^verbatim>\<open>BaseProtocol._force_close\<close>.\<close>

definition force_close :: "protocol \<Rightarrow> protocol" where
  "force_close s =
     (if transport s then
        s \<lparr> transport := False, rb_transport := False, wb_transport := False,
            socket_open := False, sent := sent s @ [Disconnect] \<rparr>
      else s)"

subsection \<open>Protocol._reset\<close>

text \<open>
  The first loop of \<^verbatim>\<open>_reset\<close>: the current packet is looked at first; packets are
  read and discarded until the current one is a marker packet whose marker type is
  RESET. The value returned is the local variable \<^verbatim>\<open>packet_type\<close>.
\<close>

function reset_discard :: "protocol \<Rightarrow> (nat, protocol) outcome" where
  "reset_discard s =
     (let packet_type' = packet_type (current_packet s) in
      if packet_type' = TNS_PACKET_TYPE_MARKER \<and> read_marker_type (current_packet s) = None
        then Raises ERR_UNEXPECTED_END_OF_DATA s
      else if packet_type' = TNS_PACKET_TYPE_MARKER
              \<and> read_marker_type (current_packet s) = Some TNS_MARKER_TYPE_RESET
        then Returns packet_type' s
      else case wait_for_packets_sync s of
             Returns u s' \<Rightarrow> reset_discard s'
           | Raises e s' \<Rightarrow> Raises e s'
           | No_return \<Rightarrow> No_return)"
  by pat_completeness auto
termination
  by (relation "measure (\<lambda>s. length (pending s))")
     (auto simp: wait_for_packets_sync_def split: if_splits list.splits in_event.splits)

text \<open>
  The second loop of \<^verbatim>\<open>_reset\<close>: while the local \<^verbatim>\<open>packet_type\<close> is MARKER, read
  the next packet and take its type.
\<close>

function reset_skip_markers :: "nat \<Rightarrow> protocol \<Rightarrow> (unit, protocol) outcome" where
  "reset_skip_markers packet_type' s =
     (if packet_type' = TNS_PACKET_TYPE_MARKER then
        (case wait_for_packets_sync s of
           Returns u s' \<Rightarrow> reset_skip_markers (packet_type (current_packet s')) s'
         | Raises e s' \<Rightarrow> Raises e s'
         | No_return \<Rightarrow> No_return)
      else Returns () s)"
  by pat_completeness auto
termination
  by (relation "measure (\<lambda>(t, s). length (pending s))")
     (auto simp: wait_for_packets_sync_def split: if_splits list.splits in_event.splits)

definition reset :: "protocol \<Rightarrow> (unit, protocol) outcome" where
  "reset s =
     (case send_marker Conn_write_buf TNS_MARKER_TYPE_RESET s of
        Returns u s1 \<Rightarrow>
          (case reset_discard s1 of
             Returns packet_type' s2 \<Rightarrow>
               (case reset_skip_markers packet_type' s2 of
                  Returns u' s3 \<Rightarrow> Returns () (s3 \<lparr> break_in_progress := False \<rparr>)
                | Raises e s3 \<Rightarrow> Raises e s3
                | No_return \<Rightarrow> No_return)
           | Raises e s2 \<Rightarrow> Raises e s2
           | No_return \<Rightarrow> No_return)
      | Raises e s1 \<Rightarrow> Raises e s1
      | No_return \<Rightarrow> No_return)"

subsection \<open>Messages and their codecs\<close>

record error_info =
  ei_num :: int
  ei_pos :: int
  ei_message :: "string option"

text \<open>
  The fields of the base class \<^verbatim>\<open>Message\<close> that the engine reads or writes;
  \<open>call_timeout\<close> is \<^verbatim>\<open>message.conn_impl._call_timeout\<close>. A subclass is an
  extension of the record.
\<close>

record message =
  call_timeout :: nat
  error_info :: error_info
  error_occurred :: bool
  retry :: bool
  resend :: bool
  flush_out_binds :: bool
  call_status :: nat

text \<open>
  The codecs (\<^verbatim>\<open>Message.send\<close> and \<^verbatim>\<open>Message.process\<close> of each message class)
  are not among the sources at hand; they are parameters. \<^verbatim>\<open>send\<close> starts a request
  on the connection's write buffer and writes the packets of the request, and may raise
  after some of them. \<^verbatim>\<open>process\<close> is handed the read buffer: it sees the negotiated
  capabilities, the current packet and what the socket delivers next, may read further
  packets, changes the message, and returns, raises or blocks.
\<close>

datatype send_result = Send_done "packet list" | Send_raised "packet list" exn

record read_view =
  rv_caps :: capabilities
  rv_current :: packet
  rv_pending :: "in_event list"

datatype 'm process_result =
  Processed 'm read_view
  | Process_raised exn 'm read_view
  | Process_blocked

record 'm codec =
  send_f :: "'m \<Rightarrow> send_result"
  process_f :: "'m \<Rightarrow> read_view \<Rightarrow> 'm process_result"

text \<open>
  What the engine takes from the errors module and the thin constants file, neither of
  which is among the sources at hand.
\<close>

record deps =
  get_exception_class :: "int \<Rightarrow> exc_class"
  is_session_dead :: "error_obj \<Rightarrow> bool"
  TNS_MSG_TYPE_FLUSH_OUT_BINDS :: nat
  TNS_TXN_IN_PROGRESS :: nat
  TNS_PACKET_FLAG_REDIRECT :: nat
  TNS_PACKET_FLAG_TLS_RENEG :: nat
  TNS_VERSION_MIN_ACCEPTED :: nat
  TNS_VERSION_MIN_OOB_CHECK :: nat

text \<open>
  \<^verbatim>\<open>message.send(self._write_buf)\<close>: the request is started on the connection's
  write buffer, its packets are written in order, and the codec's exception, if it has
  one, is raised after the packets it wrote.
\<close>

fun write_packets :: "packet list \<Rightarrow> protocol \<Rightarrow> (unit, protocol) outcome" where
  "write_packets [] s = Returns () s"
| "write_packets (p # ps) s =
     (case write_packet Conn_write_buf p s of
        Returns u s' \<Rightarrow> write_packets ps s'
      | Raises e s' \<Rightarrow> Raises e s'
      | No_return \<Rightarrow> No_return)"

definition message_send :: "'m codec \<Rightarrow> 'm \<Rightarrow> protocol \<Rightarrow> (unit, protocol) outcome" where
  "message_send C m s =
     (case send_f C m of
        Send_done ps \<Rightarrow> write_packets ps (start_request Conn_write_buf s)
      | Send_raised ps e \<Rightarrow>
          (case write_packets ps (start_request Conn_write_buf s) of
             Returns u s' \<Rightarrow> Raises e s'
           | Raises e' s' \<Rightarrow> Raises e' s'
           | No_return \<Rightarrow> No_return))"

text \<open>
  \<^verbatim>\<open>message.process(self._read_buf)\<close>: the codec works on what the read buffer
  shows of the connection, and what it leaves there is written back.
\<close>

definition view_of :: "protocol \<Rightarrow> read_view" where
  "view_of s = \<lparr> rv_caps = caps s, rv_current = current_packet s, rv_pending = pending s \<rparr>"

definition with_view :: "read_view \<Rightarrow> protocol \<Rightarrow> protocol" where
  "with_view v s = s \<lparr> caps := rv_caps v, current_packet := rv_current v, pending := rv_pending v \<rparr>"

definition message_process :: "'m codec \<Rightarrow> 'm \<Rightarrow> protocol \<Rightarrow> (unit, 'm \<times> protocol) outcome" where
  "message_process C m s =
     (case process_f C m (view_of s) of
        Processed m' v \<Rightarrow> Returns () (m', with_view v s)
      | Process_raised e m' v \<Rightarrow> Raises e (m', with_view v s)
      | Process_blocked \<Rightarrow> No_return)"

subsection \<open>Protocol._receive_packet\<close>

definition receive_packet ::
  "'a message_scheme \<Rightarrow> protocol \<Rightarrow> (unit, 'a message_scheme \<times> protocol) outcome" where
  "receive_packet m s =
     (case wait_for_packets_sync s of
        Raises e s1 \<Rightarrow> Raises e (m, s1)
      | No_return \<Rightarrow> No_return
      | Returns u s1 \<Rightarrow>
          if packet_type (current_packet s1) = TNS_PACKET_TYPE_MARKER then
            (case reset s1 of
               Returns u' s2 \<Rightarrow> Returns () (m, s2)
             | Raises e s2 \<Rightarrow> Raises e (m, s2)
             | No_return \<Rightarrow> No_return)
          else if packet_type (current_packet s1) = TNS_PACKET_TYPE_REFUSE then
            (let s2 = s1 \<lparr> packet_sent := False \<rparr>
             in case read_refuse_message (current_packet s2) of
                  None \<Rightarrow> Raises (read_refuse_error (current_packet s2)) (m, s2)
                | Some text \<Rightarrow>
                    Returns () (m \<lparr> error_info := (error_info m) \<lparr> ei_message := text \<rparr> \<rparr>, s2))
          else Returns () (m, s1))"

subsection \<open>Protocol._process_message\<close>

text \<open>The body of the \<^verbatim>\<open>try\<close>: reset the packets, send, receive, process.\<close>

definition try_block ::
  "'a message_scheme codec \<Rightarrow> 'a message_scheme \<Rightarrow> protocol
   \<Rightarrow> (unit, 'a message_scheme \<times> protocol) outcome" where
  "try_block C m s =
     (case message_send C m (reset_packets s) of
        Raises e s1 \<Rightarrow> Raises e (m, s1)
      | No_return \<Rightarrow> No_return
      | Returns u s1 \<Rightarrow>
          (case receive_packet m s1 of
             Raises e ms \<Rightarrow> Raises e ms
           | No_return \<Rightarrow> No_return
           | Returns u' (m2, s2) \<Rightarrow> message_process C m2 s2))"

text \<open>
  The handler \<^verbatim>\<open>except socket.timeout\<close>. Inside it, a second \<^verbatim>\<open>socket.timeout\<close>
  forces the connection closed; the handler always ends by raising.
\<close>

definition recovery_timed_out ::
  "'a message_scheme \<times> protocol \<Rightarrow> (unit, 'a message_scheme \<times> protocol) outcome" where
  "recovery_timed_out ms =
     Raises (ERR_CONNECTION_CLOSED
               ''socket timed out while recovering from previous socket timeout'')
            (fst ms, force_close (snd ms))"

definition on_socket_timeout ::
  "'a message_scheme \<times> protocol \<Rightarrow> (unit, 'a message_scheme \<times> protocol) outcome" where
  "on_socket_timeout ms =
     (let m = fst ms; s = snd ms; timeout = call_timeout m
      in case break_external s of
           Raises e s1 \<Rightarrow>
             (if e = Socket_timeout then recovery_timed_out (m, s1) else Raises e (m, s1))
         | No_return \<Rightarrow> No_return
         | Returns u s1 \<Rightarrow>
             (case receive_packet m s1 of
                Raises e ms2 \<Rightarrow>
                  (if e = Socket_timeout then recovery_timed_out ms2 else Raises e ms2)
              | No_return \<Rightarrow> No_return
              | Returns u' (m2, s2) \<Rightarrow>
                  Raises (ERR_CALL_TIMEOUT_EXCEEDED timeout)
                         (m2, s2 \<lparr> break_in_progress := False \<rparr>)))"

text \<open>
  The handler \<^verbatim>\<open>except Exception as e\<close>: past the connect phase, with a packet of
  the request written and the read buffer's transport and socket still there, a BREAK
  marker is sent and \<^verbatim>\<open>_reset\<close> runs; then \<open>e\<close> is raised again.
\<close>

definition on_exception ::
  "exn \<Rightarrow> 'a message_scheme \<times> protocol \<Rightarrow> (unit, 'a message_scheme \<times> protocol) outcome" where
  "on_exception e ms =
     (let m = fst ms; s = snd ms
      in if \<not> in_connect s \<and> packet_sent s \<and> rb_transport s \<and> socket_open s then
           (case send_marker Conn_write_buf TNS_MARKER_TYPE_BREAK s of
              Raises e' s1 \<Rightarrow> Raises e' (m, s1)
            | No_return \<Rightarrow> No_return
            | Returns u s1 \<Rightarrow>
                (case reset s1 of
                   Raises e' s2 \<Rightarrow> Raises e' (m, s2)
                 | No_return \<Rightarrow> No_return
                 | Returns u' s2 \<Rightarrow> Raises e (m, s2)))
         else Raises e (m, s))"

text \<open>
  After the \<^verbatim>\<open>try\<close>: the flush of OUT binds, when the message asks for it.
\<close>

definition flush_out_binds_step ::
  "deps \<Rightarrow> 'a message_scheme codec \<Rightarrow> 'a message_scheme \<times> protocol
   \<Rightarrow> (unit, 'a message_scheme \<times> protocol) outcome" where
  "flush_out_binds_step D C ms =
     (let m = fst ms; s = snd ms
      in if flush_out_binds m then
           (case write_packet Conn_write_buf
                   \<lparr> packet_type = TNS_PACKET_TYPE_DATA, packet_flags = 0,
                     payload = [TNS_MSG_TYPE_FLUSH_OUT_BINDS D] \<rparr>
                   (start_request Conn_write_buf s) of
              Raises e s1 \<Rightarrow> Raises e (m, s1)
            | No_return \<Rightarrow> No_return
            | Returns u s1 \<Rightarrow>
                (case reset s1 of
                   Raises e s2 \<Rightarrow> Raises e (m, s2)
                 | No_return \<Rightarrow> No_return
                 | Returns u' s2 \<Rightarrow> message_process C m s2))
         else Returns () (m, s))"

text \<open>
  After the \<^verbatim>\<open>try\<close>: a break was issued while the call was running. A timeout of
  the read here is answered by \<^verbatim>\<open>ERR_CONNECTION_CLOSED\<close>.
\<close>

definition break_response_step ::
  "'a message_scheme codec \<Rightarrow> 'a message_scheme \<times> protocol
   \<Rightarrow> (unit, 'a message_scheme \<times> protocol) outcome" where
  "break_response_step C ms =
     (let m = fst ms; s = snd ms;
          closed = ERR_CONNECTION_CLOSED
                     ''socket timed out while awaiting break response from server''
      in if break_in_progress s then
           (case (if supports_oob (caps s)
                  then send_marker Conn_write_buf TNS_MARKER_TYPE_INTERRUPT s
                  else Returns () s) of
              Raises e s1 \<Rightarrow> Raises (if e = Socket_timeout then closed else e) (m, s1)
            | No_return \<Rightarrow> No_return
            | Returns u s1 \<Rightarrow>
                (case receive_packet m s1 of
                   Raises e ms2 \<Rightarrow> Raises (if e = Socket_timeout then closed else e) ms2
                 | No_return \<Rightarrow> No_return
                 | Returns u' (m2, s2) \<Rightarrow>
                     (case message_process C m2 s2 of
                        Raises e ms3 \<Rightarrow> Raises e ms3
                      | No_return \<Rightarrow> No_return
                      | Returns u'' (m3, s3) \<Rightarrow>
                          Returns () (m3, s3 \<lparr> break_in_progress := False \<rparr>))))
         else Returns () (m, s))"

text \<open>
  The end of \<^verbatim>\<open>_process_message\<close>: the transaction flag, then the server error,
  if one was recorded. The value \<open>True\<close> says that the message is to be processed
  again (the source calls \<^verbatim>\<open>self._process_message(message)\<close> and returns its
  result).
\<close>

definition error_of :: "'a message_scheme \<Rightarrow> error_obj" where
  "error_of m =
     \<lparr> err_message = ei_message (error_info m),
       err_code = ei_num (error_info m),
       err_offset = ei_pos (error_info m) \<rparr>"

definition finish_step ::
  "deps \<Rightarrow> 'a message_scheme \<times> protocol \<Rightarrow> (bool, 'a message_scheme \<times> protocol) outcome" where
  "finish_step D ms =
     (let m = fst ms;
          s = (snd ms) \<lparr> txn_in_progress := (call_status m AND TNS_TXN_IN_PROGRESS D \<noteq> 0) \<rparr>
      in if error_occurred m then
           (if retry m then Returns True (m \<lparr> error_occurred := False \<rparr>, s)
            else
              let error = error_of m;
                  s' = (if is_session_dead D error then force_close s else s);
                  exc_type = get_exception_class D (ei_num (error_info m))
              in Raises (Oracle_error exc_type error) (m, s'))
         else Returns False (m, s))"

text \<open>
  The two steps between the \<^verbatim>\<open>try\<close> and the end: the flush of OUT binds and the
  answer to a break.
\<close>

definition settle_response ::
  "deps \<Rightarrow> 'a message_scheme codec \<Rightarrow> 'a message_scheme \<times> protocol
   \<Rightarrow> (unit, 'a message_scheme \<times> protocol) outcome" where
  "settle_response D C ms =
     (case flush_out_binds_step D C ms of
        Raises e ms1 \<Rightarrow> Raises e ms1
      | No_return \<Rightarrow> No_return
      | Returns u ms1 \<Rightarrow> break_response_step C ms1)"

definition after_response ::
  "deps \<Rightarrow> 'a message_scheme codec \<Rightarrow> 'a message_scheme \<times> protocol
   \<Rightarrow> (bool, 'a message_scheme \<times> protocol) outcome" where
  "after_response D C ms =
     (case settle_response D C ms of
        Raises e ms2 \<Rightarrow> Raises e ms2
      | No_return \<Rightarrow> No_return
      | Returns u ms2 \<Rightarrow> finish_step D ms2)"

text \<open>
  One pass through \<^verbatim>\<open>_process_message\<close>, up to the call of itself. An exception
  that leaves the \<^verbatim>\<open>try\<close> goes to the first handler when it is a socket timeout,
  to the second when it is an instance of \<^verbatim>\<open>Exception\<close>, and past both otherwise.
\<close>

definition process_message_pass ::
  "deps \<Rightarrow> 'a message_scheme codec \<Rightarrow> 'a message_scheme \<Rightarrow> protocol
   \<Rightarrow> (bool, 'a message_scheme \<times> protocol) outcome" where
  "process_message_pass D C m s =
     (case try_block C m s of
        Raises e ms \<Rightarrow>
          (case (if e = Socket_timeout then on_socket_timeout ms
                 else if is_Exception e then on_exception e ms
                 else Raises e ms) of
             Raises e' ms' \<Rightarrow> Raises e' ms'
           | No_return \<Rightarrow> No_return
           | Returns u ms' \<Rightarrow> Returns False ms')
      | No_return \<Rightarrow> No_return
      | Returns u ms \<Rightarrow> after_response D C ms)"

text \<open>
  \<^verbatim>\<open>Protocol._process_message\<close>. The first argument bounds the depth of the
  recursion; with the bound used up the call has no result.
\<close>

fun process_message ::
  "nat \<Rightarrow> deps \<Rightarrow> 'a message_scheme codec \<Rightarrow> 'a message_scheme \<Rightarrow> protocol
   \<Rightarrow> (unit, 'a message_scheme \<times> protocol) outcome" where
  "process_message 0 D C m s = No_return"
| "process_message (Suc depth) D C m s =
     (case process_message_pass D C m s of
        Raises e ms \<Rightarrow> Raises e ms
      | No_return \<Rightarrow> No_return
      | Returns again ms \<Rightarrow>
          if again then process_message depth D C (fst ms) (snd ms) else Returns () ms)"

text \<open>\<^verbatim>\<open>Protocol._process_single_message\<close>, without the lock and the postprocessing.\<close>

definition process_single_message ::
  "nat \<Rightarrow> deps \<Rightarrow> 'a message_scheme codec \<Rightarrow> 'a message_scheme \<Rightarrow> protocol
   \<Rightarrow> (unit, 'a message_scheme \<times> protocol) outcome" where
  "process_single_message depth D C m s =
     (case process_message depth D C m s of
        Raises e ms \<Rightarrow> Raises e ms
      | No_return \<Rightarrow> No_return
      | Returns u ms \<Rightarrow>
          if resend (fst ms) then process_message depth D C (fst ms) (snd ms)
          else Returns () ms)"

subsection \<open>Connecting: the TCP connection\<close>

record address =
  addr_host :: string
  addr_port :: int
  addr_protocol :: string
  https_proxy :: "string option"
  https_proxy_port :: int

record connect_params =
  disable_oob :: bool
  has_token :: bool
  has_access_token_callback :: bool

record description =
  tcp_connect_timeout :: nat

record connection_cookie =
  ck_protocol_version :: nat
  ck_server_banner :: "nat list"
  ck_charset_id :: nat
  ck_ncharset_id :: nat
  ck_flags :: nat
  ck_compile_caps :: "nat list"
  ck_runtime_caps :: "nat list"
  populated :: bool

text \<open>
  What phase one takes from outside the sources at hand: the platform test, the fresh
  message made by \<^verbatim>\<open>conn_impl._create_message(ConnectMessage)\<close>, the connect string
  parser (\<^verbatim>\<open>ConnectParamsImpl._parse_connect_string\<close> followed by
  \<^verbatim>\<open>_get_addresses\<close>), and the network: the exception that
  \<^verbatim>\<open>socket.create_connection\<close> raises for a host, a port and a timeout, if any; the
  exception that the \<^verbatim>\<open>send\<close> to an HTTPS proxy raises, if any; what the proxy's
  answer gives (the exception that \<^verbatim>\<open>recv\<close> or \<^verbatim>\<open>decode\<close> raises, or the text of
  the reply) and the status that the regular expression finds in the reply, if any; and
  the exceptions that the TLS negotiation
  (\<^verbatim>\<open>create_ssl_context\<close>, \<^verbatim>\<open>negotiate_tls\<close>) and the TLS renegotiation raise,
  if any.
\<close>

record connect_message = message +
  cm_host :: string
  cm_port :: int
  cm_description :: description
  connect_string_bytes :: "nat list"
  connect_string_len :: nat
  cm_packet_flags :: nat
  redirect_data :: "string option"
  cm_cookie :: "connection_cookie option"

record phase_one_env =
  is_win32 :: bool
  new_connect_message :: connect_message
  parse_connect_string :: "string \<Rightarrow> exn + address list"
  create_connection :: "string \<Rightarrow> int \<Rightarrow> nat \<Rightarrow> exn option"
  proxy_send :: "exn option"
  proxy_reply :: "exn + string"
  proxy_reply_status :: "string option"
  negotiate_tls :: "exn option"
  renegotiate_tls :: "exn option"

text \<open>
  The exchange with an HTTPS proxy: the request \<^verbatim>\<open>CONNECT host:port\<close> is written,
  the reply is read and decoded, and a reply without the status 200 is a failure.
\<close>

definition proxy_step :: "phase_one_env \<Rightarrow> string \<Rightarrow> int \<Rightarrow> protocol \<Rightarrow> (unit, protocol) outcome" where
  "proxy_step E host port s =
     (case proxy_send E of
        Some e \<Rightarrow> Raises e s
      | None \<Rightarrow>
          (let s1 = s \<lparr> sent := sent s @ [Proxy_connect host port] \<rparr>
           in case proxy_reply E of
                Inl e \<Rightarrow> Raises e s1
              | Inr reply \<Rightarrow>
                  if proxy_reply_status E \<noteq> Some ''200''
                  then Raises (ERR_PROXY_FAILURE reply) s1
                  else Returns () s1))"

text \<open>The TLS negotiation on the socket just set on the transport.\<close>

definition tls_step :: "phase_one_env \<Rightarrow> protocol \<Rightarrow> (unit, protocol) outcome" where
  "tls_step E s =
     (case negotiate_tls E of
        Some e \<Rightarrow> Raises e s
      | None \<Rightarrow> Returns () (s \<lparr> sent := sent s @ [Tls_negotiate] \<rparr>))"

text \<open>
  \<^verbatim>\<open>Protocol._connect_tcp\<close>. The trace records a connection that was made, the
  request written to a proxy, and a TLS negotiation that went through; the transport
  holds the socket from \<^verbatim>\<open>set_from_socket\<close> on.
\<close>

definition connect_tcp ::
  "phase_one_env \<Rightarrow> connect_params \<Rightarrow> description \<Rightarrow> address \<Rightarrow> string \<Rightarrow> int \<Rightarrow> protocol
   \<Rightarrow> (unit, protocol) outcome" where
  "connect_tcp E params descr addr host port s =
     (let use_proxy = (https_proxy addr \<noteq> None);
          use_tcps = (addr_protocol addr = ''tcps'')
      in if use_proxy \<and> \<not> use_tcps then Raises ERR_HTTPS_PROXY_REQUIRES_TCPS s
         else if \<not> use_proxy \<and> \<not> use_tcps
                 \<and> (has_token params \<or> has_access_token_callback params)
           then Raises ERR_ACCESS_TOKEN_REQUIRES_TCPS s
         else
           let connect_info =
                 (case https_proxy addr of
                    Some proxy \<Rightarrow> (proxy, https_proxy_port addr)
                  | None \<Rightarrow> (host, port))
           in case create_connection E (fst connect_info) (snd connect_info)
                     (tcp_connect_timeout descr) of
                Some e \<Rightarrow> Raises e s
              | None \<Rightarrow>
                  (let s1 = s \<lparr> sent := sent s @ [Tcp_connect (fst connect_info)
                                                      (snd connect_info)] \<rparr>
                   in case (if use_proxy then proxy_step E host port s1 else Returns () s1) of
                        Raises e s2 \<Rightarrow> Raises e s2
                      | No_return \<Rightarrow> No_return
                      | Returns u s2 \<Rightarrow>
                          (let s3 = s2 \<lparr> socket_open := True \<rparr>
                           in if use_tcps then tls_step E s3 else Returns () s3)))"

subsection \<open>Protocol._connect_phase_one\<close>

text \<open>
  \<^verbatim>\<open>str.find\<close> for one character of ASCII: the first index, or -1. The index
  counts bytes; the code uses it to cut the text before and after the character,
  and a byte of that value is never part of the encoding of another character.
\<close>

fun str_find :: "char \<Rightarrow> string \<Rightarrow> int" where
  "str_find c [] = - 1"
| "str_find c (x # xs) =
     (if x = c then 0 else (let r = str_find c xs in if r < 0 then - 1 else r + 1))"

text \<open>
  \<^verbatim>\<open>str.encode()\<close>: the bytes of the UTF-8 encoding of a text, which are the
  characters that represent it.
\<close>

definition encode_str :: "string \<Rightarrow> nat list" where
  "encode_str cs = map of_char cs"

text \<open>The local variables of the loop.\<close>

record phase_one_vars =
  v_host :: string
  v_port :: int
  v_connect_string :: string
  v_connect_message :: "connect_message option"
  v_packet_flags :: nat

text \<open>The message the loop works with: the one at hand, or a new one.\<close>

definition current_connect_message ::
  "phase_one_env \<Rightarrow> description \<Rightarrow> phase_one_vars \<Rightarrow> connect_message" where
  "current_connect_message E descr v =
     (case v_connect_message v of
        Some cm \<Rightarrow> cm
      | None \<Rightarrow>
          (new_connect_message E)
            \<lparr> cm_host := v_host v,
              cm_port := v_port v,
              cm_description := descr,
              connect_string_bytes := encode_str (v_connect_string v),
              connect_string_len := length (encode_str (v_connect_string v)) mod 65536,
              cm_packet_flags := v_packet_flags v \<rparr>)"

text \<open>
  The branch taken when the connect message holds redirect data: the data is split at
  its first NUL, a TCP connection is made to the address parsed from the first part,
  and the loop variables are set for a new connect message.
\<close>

definition redirect_step ::
  "deps \<Rightarrow> phase_one_env \<Rightarrow> connect_params \<Rightarrow> description \<Rightarrow> address \<Rightarrow> string
   \<Rightarrow> phase_one_vars \<Rightarrow> protocol \<Rightarrow> (phase_one_vars, protocol) outcome" where
  "redirect_step D E params descr addr redirect_data' v s =
     (let pos = str_find (CHR 0x00) redirect_data'
      in if pos < 0 then Raises (ERR_INVALID_REDIRECT_DATA redirect_data') s
         else case parse_connect_string E (take (nat pos) redirect_data') of
                Inl e \<Rightarrow> Raises e s
              | Inr [] \<Rightarrow> Raises IndexError s
              | Inr (temp_address # others) \<Rightarrow>
                  (case connect_tcp E params descr addr (addr_host temp_address)
                          (addr_port temp_address) s of
                     Raises e s1 \<Rightarrow> Raises e s1
                   | No_return \<Rightarrow> No_return
                   | Returns u s1 \<Rightarrow>
                       Returns (v \<lparr> v_host := addr_host temp_address,
                                    v_port := addr_port temp_address,
                                    v_connect_string := drop (nat pos + 1) redirect_data',
                                    v_connect_message := None,
                                    v_packet_flags := TNS_PACKET_FLAG_REDIRECT D \<rparr>) s1))"

text \<open>
  The end of the loop body, for TCPS addresses: no OOB; the flags of the current packet
  are read into the local \<^verbatim>\<open>packet_flags\<close>, and TLS is renegotiated when they ask
  for it.
\<close>

definition tcps_step ::
  "deps \<Rightarrow> phase_one_env \<Rightarrow> address \<Rightarrow> phase_one_vars \<Rightarrow> protocol
   \<Rightarrow> (phase_one_vars, protocol) outcome" where
  "tcps_step D E addr v s =
     (if addr_protocol addr = ''tcps'' then
        (let s1 = s \<lparr> caps := (caps s) \<lparr> supports_oob := False \<rparr> \<rparr>;
             packet_flags' = packet_flags (current_packet s1);
             v1 = v \<lparr> v_packet_flags := packet_flags' \<rparr>
         in if packet_flags' AND TNS_PACKET_FLAG_TLS_RENEG D \<noteq> 0 then
              (case renegotiate_tls E of
                 Some e \<Rightarrow> Raises e s1
               | None \<Rightarrow> Returns v1 (s1 \<lparr> sent := sent s1 @ [Tls_renegotiate] \<rparr>))
            else Returns v1 s1)
      else Returns v s)"

text \<open>
  The loop \<^verbatim>\<open>while True\<close> of phase one. The first argument bounds the number of
  passes, the second the depth of \<^verbatim>\<open>_process_message\<close>.
\<close>

fun phase_one_loop ::
  "nat \<Rightarrow> nat \<Rightarrow> deps \<Rightarrow> phase_one_env \<Rightarrow> connect_message codec \<Rightarrow> connect_params
   \<Rightarrow> description \<Rightarrow> address \<Rightarrow> phase_one_vars \<Rightarrow> protocol
   \<Rightarrow> (connection_cookie option, protocol) outcome" where
  "phase_one_loop 0 depth D E C params descr addr v s = No_return"
| "phase_one_loop (Suc passes) depth D E C params descr addr v s =
     (case process_message depth D C (current_connect_message E descr v) s of
        Raises e ms \<Rightarrow> Raises e (snd ms)
      | No_return \<Rightarrow> No_return
      | Returns u ms \<Rightarrow>
          (let connect_message' = fst ms; s1 = snd ms;
               packet_type' = packet_type (current_packet s1)
           in case redirect_data connect_message' of
                Some redirect_data' \<Rightarrow>
                  (case redirect_step D E params descr addr redirect_data' v s1 of
                     Raises e s2 \<Rightarrow> Raises e s2
                   | No_return \<Rightarrow> No_return
                   | Returns v2 s2 \<Rightarrow>
                       (case tcps_step D E addr v2 s2 of
                          Raises e s3 \<Rightarrow> Raises e s3
                        | No_return \<Rightarrow> No_return
                        | Returns v3 s3 \<Rightarrow>
                            phase_one_loop passes depth D E C params descr addr v3 s3))
              | None \<Rightarrow>
                  if packet_type' = TNS_PACKET_TYPE_ACCEPT then
                    Returns (cm_cookie connect_message')
                            (s1 \<lparr> max_packet_size := sdu (caps s1) \<rparr>)
                  else
                    (case tcps_step D E addr (v \<lparr> v_connect_message := Some connect_message' \<rparr>)
                            s1 of
                       Raises e s3 \<Rightarrow> Raises e s3
                     | No_return \<Rightarrow> No_return
                     | Returns v3 s3 \<Rightarrow>
                         phase_one_loop passes depth D E C params descr addr v3 s3)))"

text \<open>\<^verbatim>\<open>Protocol._connect_phase_one\<close>.\<close>

definition connect_phase_one ::
  "nat \<Rightarrow> nat \<Rightarrow> deps \<Rightarrow> phase_one_env \<Rightarrow> connect_message codec \<Rightarrow> connect_params
   \<Rightarrow> description \<Rightarrow> address \<Rightarrow> string \<Rightarrow> protocol
   \<Rightarrow> (connection_cookie option, protocol) outcome" where
  "connect_phase_one passes depth D E C params descr addr connect_string s =
     (let s0 = s \<lparr> caps := (caps s) \<lparr> supports_oob := (\<not> disable_oob params \<and> \<not> is_win32 E) \<rparr> \<rparr>
      in case connect_tcp E params descr addr (addr_host addr) (addr_port addr) s0 of
           Raises e s1 \<Rightarrow> Raises e s1
         | No_return \<Rightarrow> No_return
         | Returns u s1 \<Rightarrow>
             phase_one_loop passes depth D E C params descr addr
               \<lparr> v_host = addr_host addr, v_port = addr_port addr,
                 v_connect_string = connect_string, v_connect_message = None,
                 v_packet_flags = 0 \<rparr> s1)"

subsection \<open>Protocol._connect_phase_two\<close>

record protocol_message = message +
  server_version :: nat
  server_banner :: "nat list"
  server_flags :: nat
  server_compile_caps :: "nat list"
  server_runtime_caps :: "nat list"

record auth_message = message +
  warning :: "string option"

text \<open>
  A \<^verbatim>\<open>ConnectionCookieMessage\<close> refers to the cookie and to the three other
  messages; what its processing does to them is read back from it afterwards.
\<close>

record cookie_message = message +
  cookie :: connection_cookie
  cm_protocol_message :: protocol_message
  cm_data_types_message :: message
  cm_auth_message :: auth_message

text \<open>
  What phase two takes from outside the sources at hand: the fresh messages made by
  \<^verbatim>\<open>conn_impl._create_message\<close>, \<^verbatim>\<open>AuthMessage._set_params\<close>, and the codec of
  each message class.
\<close>

record phase_two_env =
  new_protocol_message :: protocol_message
  new_data_types_message :: message
  new_auth_message :: auth_message
  new_cookie_message :: message
  set_params :: "connect_params \<Rightarrow> description \<Rightarrow> auth_message \<Rightarrow> auth_message"
  protocol_codec :: "protocol_message codec"
  data_types_codec :: "message codec"
  auth_codec :: "auth_message codec"
  cookie_codec :: "cookie_message codec"

text \<open>
  The local variables of phase two. The cookie is an object shared between
  connections: it is part of the state, next to the connection.
\<close>

record phase_two_locals =
  l_sent_cookie :: bool
  l_protocol_message :: protocol_message
  l_data_types_message :: message
  l_auth_message :: auth_message

type_synonym phase_two_state = "connection_cookie option \<times> protocol"

text \<open>The version check and the OOB check that open phase two.\<close>

definition phase_two_check :: "deps \<Rightarrow> protocol \<Rightarrow> (unit, protocol) outcome" where
  "phase_two_check D s =
     (if protocol_version (caps s) < TNS_VERSION_MIN_ACCEPTED D
        then Raises ERR_SERVER_VERSION_NOT_SUPPORTED s
      else if supports_oob (caps s) \<and> TNS_VERSION_MIN_OOB_CHECK D \<le> protocol_version (caps s)
        then (case send_oob_break s of
                Returns u s1 \<Rightarrow> send_marker Conn_write_buf TNS_MARKER_TYPE_RESET s1
              | Raises e s1 \<Rightarrow> Raises e s1
              | No_return \<Rightarrow> No_return)
      else Returns () s)"

text \<open>
  The first message: a populated cookie goes out in a cookie message together with
  the three other messages; otherwise the protocol message is processed alone.
\<close>

definition phase_two_first ::
  "nat \<Rightarrow> deps \<Rightarrow> phase_two_env \<Rightarrow> connect_params \<Rightarrow> description \<Rightarrow> phase_two_state
   \<Rightarrow> (phase_two_locals, phase_two_state) outcome" where
  "phase_two_first depth D E params descr cs =
     (let ck = fst cs; s = snd cs;
          protocol_message' = new_protocol_message E;
          data_types_message' = new_data_types_message E;
          auth_message' = set_params E params descr (new_auth_message E)
      in case ck of
           Some c \<Rightarrow>
             if populated c then
               (let cookie_message' =
                      message.extend (new_cookie_message E)
                        (cookie_message.fields c protocol_message' data_types_message'
                           auth_message')
                in case process_message depth D (cookie_codec E) cookie_message' s of
                     Raises e ms \<Rightarrow> Raises e (Some (cookie (fst ms)), snd ms)
                   | No_return \<Rightarrow> No_return
                   | Returns u ms \<Rightarrow>
                       Returns \<lparr> l_sent_cookie = True,
                                 l_protocol_message = cm_protocol_message (fst ms),
                                 l_data_types_message = cm_data_types_message (fst ms),
                                 l_auth_message = cm_auth_message (fst ms) \<rparr>
                               (Some (cookie (fst ms)), snd ms))
             else
               (case process_message depth D (protocol_codec E) protocol_message' s of
                  Raises e ms \<Rightarrow> Raises e (ck, snd ms)
                | No_return \<Rightarrow> No_return
                | Returns u ms \<Rightarrow>
                    Returns \<lparr> l_sent_cookie = False, l_protocol_message = fst ms,
                              l_data_types_message = data_types_message',
                              l_auth_message = auth_message' \<rparr> (ck, snd ms))
         | None \<Rightarrow>
             (case process_message depth D (protocol_codec E) protocol_message' s of
                Raises e ms \<Rightarrow> Raises e (ck, snd ms)
              | No_return \<Rightarrow> No_return
              | Returns u ms \<Rightarrow>
                  Returns \<lparr> l_sent_cookie = False, l_protocol_message = fst ms,
                            l_data_types_message = data_types_message',
                            l_auth_message = auth_message' \<rparr> (ck, snd ms)))"

text \<open>The assignments that fill a cookie.\<close>

definition populate_cookie ::
  "protocol_message \<Rightarrow> capabilities \<Rightarrow> connection_cookie \<Rightarrow> connection_cookie" where
  "populate_cookie protocol_message' cp c =
     c \<lparr> ck_protocol_version := server_version protocol_message',
         ck_server_banner := server_banner protocol_message',
         ck_charset_id := charset_id cp,
         ck_ncharset_id := ncharset_id cp,
         ck_flags := server_flags protocol_message',
         ck_compile_caps := server_compile_caps protocol_message',
         ck_runtime_caps := server_runtime_caps protocol_message',
         populated := True \<rparr>"

text \<open>
  The regular approach for the remaining messages, taken when no cookie was sent or
  the cookie is not populated (any more): data types, authorization, and the filling of
  a cookie that is there and not populated.
\<close>

definition phase_two_regular ::
  "nat \<Rightarrow> deps \<Rightarrow> phase_two_env \<Rightarrow> phase_two_locals \<Rightarrow> phase_two_state
   \<Rightarrow> (phase_two_locals, phase_two_state) outcome" where
  "phase_two_regular depth D E L cs =
     (let ck = fst cs; s = snd cs
      in if \<not> l_sent_cookie L \<or> \<not> (case ck of Some c \<Rightarrow> populated c | None \<Rightarrow> False) then
           (case process_message depth D (data_types_codec E) (l_data_types_message L) s of
              Raises e ms \<Rightarrow> Raises e (ck, snd ms)
            | No_return \<Rightarrow> No_return
            | Returns u ms1 \<Rightarrow>
                (case process_message depth D (auth_codec E) (l_auth_message L) (snd ms1) of
                   Raises e ms \<Rightarrow> Raises e (ck, snd ms)
                 | No_return \<Rightarrow> No_return
                 | Returns u' ms2 \<Rightarrow>
                     Returns (L \<lparr> l_data_types_message := fst ms1, l_auth_message := fst ms2 \<rparr>)
                       ((case ck of
                           Some c \<Rightarrow>
                             if \<not> populated c
                             then Some (populate_cookie (l_protocol_message L) (caps (snd ms2)) c)
                             else Some c
                         | None \<Rightarrow> None),
                        snd ms2)))
         else Returns L cs)"

text \<open>
  The end of phase two: the authorization message once more when it asks for it; then
  the connect phase is over. The value returned is what is stored in
  \<^verbatim>\<open>conn_impl.warning\<close>.
\<close>

definition phase_two_finish ::
  "nat \<Rightarrow> deps \<Rightarrow> phase_two_env \<Rightarrow> phase_two_locals \<Rightarrow> phase_two_state
   \<Rightarrow> (string option, phase_two_state) outcome" where
  "phase_two_finish depth D E L cs =
     (let ck = fst cs; s = snd cs
      in if resend (l_auth_message L) then
           (case process_message depth D (auth_codec E) (l_auth_message L) s of
              Raises e ms \<Rightarrow> Raises e (ck, snd ms)
            | No_return \<Rightarrow> No_return
            | Returns u ms \<Rightarrow>
                Returns (warning (fst ms)) (ck, (snd ms) \<lparr> in_connect := False \<rparr>))
         else Returns (warning (l_auth_message L)) (ck, s \<lparr> in_connect := False \<rparr>))"

definition connect_phase_two ::
  "nat \<Rightarrow> deps \<Rightarrow> phase_two_env \<Rightarrow> connection_cookie option \<Rightarrow> description
   \<Rightarrow> connect_params \<Rightarrow> protocol \<Rightarrow> (string option, phase_two_state) outcome" where
  "connect_phase_two depth D E ck descr params s =
     (case phase_two_check D s of
        Raises e s0 \<Rightarrow> Raises e (ck, s0)
      | No_return \<Rightarrow> No_return
      | Returns u s0 \<Rightarrow>
          (case phase_two_first depth D E params descr (ck, s0) of
             Raises e cs \<Rightarrow> Raises e cs
           | No_return \<Rightarrow> No_return
           | Returns L cs1 \<Rightarrow>
               (case phase_two_regular depth D E L cs1 of
                  Raises e cs \<Rightarrow> Raises e cs
                | No_return \<Rightarrow> No_return
                | Returns L' cs2 \<Rightarrow> phase_two_finish depth D E L' cs2)))"

text \<open>
  The place of a type in \<^verbatim>\<open>db_type_by_num\<close> and its key in
  \<^verbatim>\<open>db_type_by_ora_type_num\<close>, as \<^verbatim>\<open>DbType.__init__\<close> computes them, and what makes
  a registration go through on a table of \<open>n\<close> entries without a negative index.
\<close>

definition reg_index :: "base_constants \<Rightarrow> db_type \<Rightarrow> int" where
  "reg_index K a = (if num a \<noteq> 0 then num a - DB_TYPE_NUM_MIN K else num a)"

definition ora_key :: "db_type \<Rightarrow> int" where
  "ora_key a = csfrm a * 256 + ora_type_num a"

definition valid_registration :: "base_constants \<Rightarrow> nat \<Rightarrow> db_type \<Rightarrow> bool" where
  "valid_registration K n a =
     (0 \<le> ora_key a \<and> ora_key a \<le> 65535 \<and> 0 \<le> reg_index K a \<and> reg_index K a < int n)"

text \<open>
  Two tests on packets, used to say what a server sends: a marker packet of type RESET,
  and a marker packet too short to hold a marker type.
\<close>

definition is_reset_marker :: "packet \<Rightarrow> bool" where
  "is_reset_marker p =
     (packet_type p = TNS_PACKET_TYPE_MARKER \<and> read_marker_type p = Some TNS_MARKER_TYPE_RESET)"

definition malformed_marker :: "packet \<Rightarrow> bool" where
  "malformed_marker p = (packet_type p = TNS_PACKET_TYPE_MARKER \<and> read_marker_type p = None)"

section \<open>Scenarios\<close>

text \<open>
  Concrete values on which the theorems below are exercised: a connection that is
  ready for a call, a message, a small codec, and the functions of the errors module
  on the Oracle error numbers the specification names.
\<close>

definition example_caps :: capabilities where
  "example_caps =
     \<lparr> protocol_version = 319, sdu = 8192, charset_id = 873, ncharset_id = 2000,
       supports_oob = False \<rparr>"

definition data_packet :: "nat list \<Rightarrow> packet" where
  "data_packet bytes = \<lparr> packet_type = TNS_PACKET_TYPE_DATA, packet_flags = 0, payload = bytes \<rparr>"

definition ready_connection :: protocol where
  "ready_connection =
     \<lparr> transport = True, socket_open = True, max_packet_size = 8192, caps = example_caps,
       rb_transport = True, current_packet = data_packet [], pending = [],
       wb_transport = True, packet_sent = False, in_connect = False,
       txn_in_progress = False, break_in_progress = False, sent = [] \<rparr>"

definition example_message :: message where
  "example_message =
     \<lparr> call_timeout = 5000,
       error_info = \<lparr> ei_num = 0, ei_pos = 0, ei_message = None \<rparr>,
       error_occurred = False, retry = False, resend = False, flush_out_binds = False,
       call_status = 0 \<rparr>"

definition example_deps :: deps where
  "example_deps =
     \<lparr> get_exception_class =
         (\<lambda>n. if n = 3113 \<or> n = 3114 \<or> n = 12751 \<or> n = 12571 then OperationalError
              else if n = 24338 then InterfaceError else DatabaseError),
       is_session_dead =
         (\<lambda>e. err_code e = 3113 \<or> err_code e = 3114 \<or> err_code e = 12751
              \<or> err_code e = 12571),
       TNS_MSG_TYPE_FLUSH_OUT_BINDS = 19,
       TNS_TXN_IN_PROGRESS = 2,
       TNS_PACKET_FLAG_REDIRECT = 4,
       TNS_PACKET_FLAG_TLS_RENEG = 8,
       TNS_VERSION_MIN_ACCEPTED = 315,
       TNS_VERSION_MIN_OOB_CHECK = 318 \<rparr>"

text \<open>
  A codec whose request is one DATA packet. Its processing reads the current packet: a
  payload that starts with 4 is a server error (the error number in the next two bytes,
  then a byte that asks for a retry when it is not zero), a payload that starts with
  255 cannot be decoded, one that starts with 254 stands for an interrupt from the
  keyboard while the answer is decoded, anything else is a result.
\<close>

definition example_codec :: "message codec" where
  "example_codec =
     \<lparr> send_f = (\<lambda>m. Send_done [data_packet [3]]),
       process_f =
         (\<lambda>m v. case payload (rv_current v) of
                   [] \<Rightarrow> Processed m v
                 | b # bs \<Rightarrow>
                     if b = 255 then Process_raised (Other_exception 0) m v
                     else if b = 254 then Process_raised KeyboardInterrupt m v
                     else if b = 4 then
                       (case bs of
                          hi # lo # r # rest \<Rightarrow>
                            Processed
                              (m \<lparr> error_occurred := True,
                                   retry := (r \<noteq> 0),
                                   error_info :=
                                     \<lparr> ei_num = int (hi * 256 + lo), ei_pos = 0,
                                       ei_message = Some ''server error'' \<rparr> \<rparr>) v
                        | _ \<Rightarrow> Process_raised ERR_UNEXPECTED_END_OF_DATA m v)
                     else Processed m v) \<rparr>"

text \<open>
  Phase two: a populated cookie, and codecs of the four message classes. The cookie
  codec clears \<open>populated\<close> when the answer starts with 28 (the server asks for a
  renegotiation); the protocol codec takes the server's version from the answer.
\<close>

definition example_cookie :: connection_cookie where
  "example_cookie =
     \<lparr> ck_protocol_version = 319, ck_server_banner = [79, 114, 97], ck_charset_id = 873,
       ck_ncharset_id = 2000, ck_flags = 1, ck_compile_caps = [6, 1], ck_runtime_caps = [2],
       populated = True \<rparr>"

definition example_phase_two_env :: phase_two_env where
  "example_phase_two_env =
     \<lparr> new_protocol_message =
         message.extend example_message (protocol_message.fields 0 [] 0 [] []),
       new_data_types_message = example_message,
       new_auth_message = message.extend example_message (auth_message.fields None),
       new_cookie_message = example_message,
       set_params = (\<lambda>params descr m. m),
       protocol_codec =
         \<lparr> send_f = (\<lambda>m. Send_done [data_packet [1]]),
           process_f =
             (\<lambda>m v. case payload (rv_current v) of
                       b # bs \<Rightarrow> Processed (m \<lparr> server_version := 300 + b \<rparr>) v
                     | [] \<Rightarrow> Processed m v) \<rparr>,
       data_types_codec =
         \<lparr> send_f = (\<lambda>m. Send_done [data_packet [2]]), process_f = (\<lambda>m v. Processed m v) \<rparr>,
       auth_codec =
         \<lparr> send_f = (\<lambda>m. Send_done [data_packet [3, 118]]),
           process_f = (\<lambda>m v. Processed m v) \<rparr>,
       cookie_codec =
         \<lparr> send_f = (\<lambda>m. Send_done [data_packet [30]]),
           process_f =
             (\<lambda>m v. case payload (rv_current v) of
                       b # bs \<Rightarrow>
                         if b = 28 then Processed (m \<lparr> cookie := (cookie m) \<lparr> populated := False \<rparr> \<rparr>) v
                         else Processed m v
                     | [] \<Rightarrow> Processed m v) \<rparr> \<rparr>"

definition example_params :: connect_params where
  "example_params =
     \<lparr> disable_oob = True, has_token = False, has_access_token_callback = False \<rparr>"

definition example_description :: description where
  "example_description = \<lparr> tcp_connect_timeout = 20 \<rparr>"

text \<open>
  Phase one: a connect codec that writes one CONNECT packet with the flags and the
  connect string of the message and takes the redirect data from a REDIRECT packet,
  and a parser that reads a connect string as the name of a host with port 1521.
\<close>

definition example_connect_codec :: "connect_message codec" where
  "example_connect_codec =
     \<lparr> send_f =
         (\<lambda>m. Send_done [\<lparr> packet_type = TNS_PACKET_TYPE_CONNECT,
                            packet_flags = cm_packet_flags m,
                            payload = connect_string_bytes m \<rparr>]),
       process_f =
         (\<lambda>m v. if packet_type (rv_current v) = TNS_PACKET_TYPE_REDIRECT
                 then Processed (m \<lparr> redirect_data := Some (decode_bytes (payload (rv_current v))) \<rparr>) v
                 else Processed m v) \<rparr>"

definition example_phase_one_env :: phase_one_env where
  "example_phase_one_env =
     \<lparr> is_win32 = False,
       new_connect_message =
         message.extend example_message
           (connect_message.fields [] 0 example_description [] 0 0 None None),
       parse_connect_string =
         (\<lambda>text. Inr [\<lparr> addr_host = text, addr_port = 1521, addr_protocol = ''tcp'',
                         https_proxy = None, https_proxy_port = 0 \<rparr>]),
       create_connection = (\<lambda>host port timeout. None),
       proxy_send = None,
       proxy_reply = Inr [],
       proxy_reply_status = None,
       negotiate_tls = None,
       renegotiate_tls = None \<rparr>"

definition example_address :: "string \<Rightarrow> address" where
  "example_address proto =
     \<lparr> addr_host = ''h1'', addr_port = 2484, addr_protocol = proto, https_proxy = None,
       https_proxy_port = 0 \<rparr>"

definition new_connection :: protocol where
  "new_connection = ready_connection \<lparr> in_connect := True, socket_open := False \<rparr>"

text \<open>
  Values for the constants of the database types: the numbers run from 2000 to 2033,
  2026, 2028 and 2029 belong to no registered type, and the unknown type has number 0.
\<close>

definition example_base_constants :: base_constants where
  "example_base_constants =
     \<lparr> DB_TYPE_NUM_MIN = 2000,
       DB_TYPE_NUM_MAX = 2033,
       DB_TYPE_NUM =
         (\<lambda>n. case map_of
                    [(''VARCHAR'', 2001), (''NVARCHAR'', 2002), (''CHAR'', 2003), (''NCHAR'', 2004),
                     (''ROWID'', 2005), (''RAW'', 2006), (''BINARY_FLOAT'', 2007),
                     (''BINARY_DOUBLE'', 2008), (''BINARY_INTEGER'', 2009), (''NUMBER'', 2010),
                     (''DATE'', 2011), (''TIMESTAMP'', 2012), (''TIMESTAMP_TZ'', 2013),
                     (''TIMESTAMP_LTZ'', 2014), (''INTERVAL_DS'', 2015), (''INTERVAL_YM'', 2016),
                     (''CLOB'', 2017), (''NCLOB'', 2018), (''BLOB'', 2019), (''BFILE'', 2020),
                     (''CURSOR'', 2021), (''BOOLEAN'', 2022), (''OBJECT'', 2023),
                     (''LONG_VARCHAR'', 2024), (''LONG_RAW'', 2025), (''JSON'', 2027),
                     (''UROWID'', 2030), (''LONG_NVARCHAR'', 2031), (''XMLTYPE'', 2032),
                     (''VECTOR'', 2033), (''UNKNOWN'', 0)] n of
                Some v \<Rightarrow> v | None \<Rightarrow> 0),
       NATIVE_TYPE_NUM =
         (\<lambda>n. case map_of
                    [(''INT64'', 3000), (''FLOAT'', 3002), (''DOUBLE'', 3003), (''BYTES'', 3004),
                     (''TIMESTAMP'', 3005), (''INTERVAL_DS'', 3006), (''INTERVAL_YM'', 3007),
                     (''LOB'', 3008), (''OBJECT'', 3009), (''STMT'', 3010), (''BOOLEAN'', 3011),
                     (''ROWID'', 3012), (''JSON'', 3013), (''VECTOR'', 3017)] n of
                Some v \<Rightarrow> v | None \<Rightarrow> 0) \<rparr>"

section \<open>Verified properties\<close>

subsection \<open>The CID of the connect data\<close>

lemma sanitize_map:
  "sanitize v =
     map (\<lambda>c. if c = CHR ''('' \<or> c = CHR '')'' \<or> c = CHR ''='' then CHR ''?'' else c) v"
  by (simp add: sanitize_def replace_char_def)

text \<open>
  Claim C6. The CID that \<^verbatim>\<open>_get_connect_data\<close> hands to the connect string builder
  is made of the sanitized program, machine and user names; the sanitized form of a
  string has a question mark wherever the string has an opening parenthesis, a closing
  parenthesis or an equals sign, and the same character everywhere else; its length is
  that of the string.
\<close>

theorem cid_uses_sanitized_values:
  "get_connect_data build (ConnectConstants_init exe hostname pid_str user mj mn pt) =
     build (''(PROGRAM='' @ sanitize exe @ '')(HOST='' @ sanitize hostname @ '')(USER=''
            @ sanitize user @ '')'')
   \<and> sanitize v =
       map (\<lambda>c. if c = CHR ''('' \<or> c = CHR '')'' \<or> c = CHR ''='' then CHR ''?'' else c) v
   \<and> length (sanitize v) = length v"
  by (simp add: get_connect_data_def connect_data_cid_def ConnectConstants_init_def sanitize_map)

theorem cid_uses_sanitized_values_witness:
  "get_connect_data id
     (ConnectConstants_init ''/usr/bin/python(3)'' ''db=host'' ''42'' ''a(b)=c'' 1 2 0)
     = ''(PROGRAM=/usr/bin/python?3?)(HOST=db?host)(USER=a?b??c)''
   \<and> sanitize ''a(b)=c'' = ''a?b??c''
   \<and> length (sanitize ''a(b)=c'') = 6"
  using cid_uses_sanitized_values
    [of id "''/usr/bin/python(3)''" "''db=host''" "''42''" "''a(b)=c''" 1 2 0 "''a(b)=c''"]
  by (simp add: sanitize_def replace_char_def)

subsection \<open>Breaks from outside\<close>

text \<open>
  Claim C7. \<^verbatim>\<open>_break_external\<close> called while a break is in progress returns with
  the state unchanged, so nothing is sent. Called with no break in progress on a
  connection whose transport is there, it sets \<open>break_in_progress\<close> and sends one
  thing: the urgent byte when the capabilities support OOB, otherwise an INTERRUPT
  marker (a packet of type MARKER with the bytes 1, 0 and the marker type INTERRUPT)
  through a write buffer of its own, which leaves the connection's write buffer (and
  its \<open>packet_sent\<close>) as it was. A second call after any call that returned changes
  nothing.
\<close>

theorem break_external_idempotent:
  "(break_in_progress s \<longrightarrow> break_external s = Returns () s)
   \<and> (\<not> break_in_progress s \<and> transport s \<and> socket_open s \<longrightarrow>
        break_external s =
          Returns () (s \<lparr> break_in_progress := True,
                          sent := sent s @
                            [if supports_oob (caps s) then Oob_break
                             else Sent Fresh_write_buf
                                    \<lparr> packet_type = TNS_PACKET_TYPE_MARKER, packet_flags = 0,
                                      payload = [1, 0, TNS_MARKER_TYPE_INTERRUPT] \<rparr>] \<rparr>))
   \<and> (\<forall>s'. break_external s = Returns () s' \<longrightarrow> break_external s' = Returns () s')"
  by (auto simp: break_external_def send_oob_break_def send_marker_def marker_packet_def
        write_packet_def start_request_def can_write_def Let_def split: if_splits)

theorem break_external_idempotent_witness:
  "break_external ready_connection =
     Returns () (ready_connection
       \<lparr> break_in_progress := True,
         sent := [Sent Fresh_write_buf
                    \<lparr> packet_type = 12, packet_flags = 0, payload = [1, 0, 1] \<rparr>] \<rparr>)
   \<and> break_external (ready_connection
       \<lparr> break_in_progress := True,
         sent := [Sent Fresh_write_buf
                    \<lparr> packet_type = 12, packet_flags = 0, payload = [1, 0, 1] \<rparr>] \<rparr>) =
     Returns () (ready_connection
       \<lparr> break_in_progress := True,
         sent := [Sent Fresh_write_buf
                    \<lparr> packet_type = 12, packet_flags = 0, payload = [1, 0, 1] \<rparr>] \<rparr>)
   \<and> break_external (ready_connection \<lparr> caps := example_caps \<lparr> supports_oob := True \<rparr> \<rparr>) =
     Returns () (ready_connection
       \<lparr> caps := example_caps \<lparr> supports_oob := True \<rparr>, break_in_progress := True,
         sent := [Oob_break] \<rparr>)"
  using break_external_idempotent [of ready_connection]
    break_external_idempotent
      [of "ready_connection \<lparr> caps := example_caps \<lparr> supports_oob := True \<rparr> \<rparr>"]
  by (simp add: ready_connection_def example_caps_def TNS_PACKET_TYPE_MARKER_def
        TNS_MARKER_TYPE_INTERRUPT_def)

subsection \<open>Reading packets and the reset sequence\<close>

declare reset_discard.simps [simp del]
declare reset_skip_markers.simps [simp del]


lemma wait_timeout:
  "rb_transport s \<Longrightarrow> socket_open s \<Longrightarrow> pending s = Recv_timeout # rest \<Longrightarrow>
   wait_for_packets_sync s = Raises Socket_timeout (s \<lparr> pending := rest \<rparr>)"
  by (simp add: wait_for_packets_sync_def)













subsection \<open>Sending\<close>


lemma write_packets_closed:
  "\<not> wb_transport s \<Longrightarrow>
   write_packets ps s = (if ps = [] then Returns () s else Raises (ERR_CONNECTION_CLOSED []) s)"
  by (cases ps) (simp_all add: write_packet_def can_write_def)

lemma try_block_closed:
  assumes "\<not> rb_transport s" "\<not> wb_transport s"
  shows "\<exists>e. try_block C m s = Raises e (m, s \<lparr> packet_sent := False \<rparr>)"
  using assms
  by (cases "send_f C m")
     (auto simp: try_block_def message_send_def reset_packets_def start_request_def
        write_packets_closed receive_packet_def wait_for_packets_sync_def)

lemma handlers_closed:
  assumes "\<not> transport s" "\<not> rb_transport s" "\<not> wb_transport s" "\<not> socket_open s"
  shows "\<exists>e' s'. (if e = Socket_timeout then on_socket_timeout (m, s)
                  else if is_Exception e then on_exception e (m, s)
                  else Raises e (m, s))
                  = Raises e' (m, s') \<and> sent s' = sent s"
  using assms
  by (auto simp: on_socket_timeout_def on_exception_def break_external_def send_oob_break_def
        send_marker_def write_packet_def can_write_def start_request_def receive_packet_def
        wait_for_packets_sync_def recovery_timed_out_def force_close_def Let_def)

lemma closed_connection_unusable:
  assumes "\<not> transport s" "\<not> rb_transport s" "\<not> wb_transport s" "\<not> socket_open s"
  shows "\<exists>e ms. process_message (Suc d) D C m s = Raises e ms \<and> sent (snd ms) = sent s"
proof -
  obtain e where tb: "try_block C m s = Raises e (m, s \<lparr> packet_sent := False \<rparr>)"
    using try_block_closed [OF assms(2,3)] by blast
  obtain e' s' where h:
    "(if e = Socket_timeout then on_socket_timeout (m, s \<lparr> packet_sent := False \<rparr>)
      else if is_Exception e then on_exception e (m, s \<lparr> packet_sent := False \<rparr>)
      else Raises e (m, s \<lparr> packet_sent := False \<rparr>)) = Raises e' (m, s')"
    "sent s' = sent (s \<lparr> packet_sent := False \<rparr>)"
    using handlers_closed [of "s \<lparr> packet_sent := False \<rparr>" e m] assms by auto
  have "process_message (Suc d) D C m s = Raises e' (m, s')"
    using tb h(1) by (simp add: process_message_pass_def)
  then show ?thesis using h(2) by simp
qed

lemmas engine_defs =
  try_block_def message_send_def reset_packets_def start_request_def write_packet_def can_write_def
  receive_packet_def wait_for_packets_sync_def message_process_def view_of_def with_view_def
  process_message_pass_def on_exception_def on_socket_timeout_def recovery_timed_out_def
  break_external_def send_oob_break_def send_marker_def force_close_def
  after_response_def settle_response_def flush_out_binds_step_def break_response_step_def
  finish_step_def error_of_def read_marker_type_def read_refuse_message_def
  read_refuse_error_def utf8_cont_def utf8_second_def is_Exception_def
  is_reset_marker_def malformed_marker_def marker_packet_def

lemmas scenario_defs =
  ready_connection_def example_caps_def example_message_def example_codec_def example_deps_def
  data_packet_def

lemmas tns_defs =
  TNS_PACKET_TYPE_CONNECT_def TNS_PACKET_TYPE_ACCEPT_def TNS_PACKET_TYPE_REFUSE_def
  TNS_PACKET_TYPE_REDIRECT_def TNS_PACKET_TYPE_DATA_def TNS_PACKET_TYPE_MARKER_def
  TNS_MARKER_TYPE_INTERRUPT_def TNS_MARKER_TYPE_RESET_def TNS_MARKER_TYPE_BREAK_def

subsection \<open>Timeout of the first receive\<close>

text \<open>
  Claim C1, as amended. The request of a message has been sent and the first read of
  the response times out, on a connection whose transport is there. Then
  \<^verbatim>\<open>_process_message\<close> issues a break, unless a break is in progress already, in
  which case it sends nothing: the urgent byte when the capabilities support OOB,
  otherwise an INTERRUPT marker (a packet of type MARKER with the bytes 1, 0 and the
  marker type INTERRUPT) through a write buffer of its own. It then calls
  \<^verbatim>\<open>_receive_packet\<close> once. When that call returns, \<open>break_in_progress\<close> is cleared
  and \<^verbatim>\<open>ERR_CALL_TIMEOUT_EXCEEDED\<close> is raised with the call timeout of the
  message; when that call times out too, the connection is forced closed and
  \<^verbatim>\<open>ERR_CONNECTION_CLOSED\<close> is raised.
\<close>

theorem first_receive_timeout_recovery:
  assumes "message_send C m (reset_packets s) = Returns () s1"
    and "pending s1 = Recv_timeout # rest"
    and "rb_transport s1" and "socket_open s1" and "transport s1"
  shows
    "(\<forall>m3 s3.
        receive_packet m
          (s1 \<lparr> pending := rest, break_in_progress := True,
                sent := sent s1 @
                  (if break_in_progress s1 then []
                   else [if supports_oob (caps s1) then Oob_break
                         else Sent Fresh_write_buf
                                \<lparr> packet_type = TNS_PACKET_TYPE_MARKER, packet_flags = 0,
                                  payload = [1, 0, TNS_MARKER_TYPE_INTERRUPT] \<rparr>]) \<rparr>)
          = Returns () (m3, s3) \<longrightarrow>
        process_message (Suc depth) D C m s =
          Raises (ERR_CALL_TIMEOUT_EXCEEDED (call_timeout m))
                 (m3, s3 \<lparr> break_in_progress := False \<rparr>))
     \<and> (\<forall>m3 s3.
        receive_packet m
          (s1 \<lparr> pending := rest, break_in_progress := True,
                sent := sent s1 @
                  (if break_in_progress s1 then []
                   else [if supports_oob (caps s1) then Oob_break
                         else Sent Fresh_write_buf
                                \<lparr> packet_type = TNS_PACKET_TYPE_MARKER, packet_flags = 0,
                                  payload = [1, 0, TNS_MARKER_TYPE_INTERRUPT] \<rparr>]) \<rparr>)
          = Raises Socket_timeout (m3, s3) \<longrightarrow>
        process_message (Suc depth) D C m s =
          Raises (ERR_CONNECTION_CLOSED
                    ''socket timed out while recovering from previous socket timeout'')
                 (m3, force_close s3))"
proof -
  let ?s2 = "s1 \<lparr> pending := rest, break_in_progress := True,
                sent := sent s1 @
                  (if break_in_progress s1 then []
                   else [if supports_oob (caps s1) then Oob_break
                         else Sent Fresh_write_buf
                                \<lparr> packet_type = TNS_PACKET_TYPE_MARKER, packet_flags = 0,
                                  payload = [1, 0, TNS_MARKER_TYPE_INTERRUPT] \<rparr>]) \<rparr>"
  have tb: "try_block C m s = Raises Socket_timeout (m, s1 \<lparr> pending := rest \<rparr>)"
    using assms by (simp add: try_block_def receive_packet_def wait_timeout)
  have be: "break_external (s1 \<lparr> pending := rest \<rparr>) = Returns () ?s2"
    using assms(3-5)
    by (cases "break_in_progress s1")
       (simp_all add: break_external_def send_oob_break_def send_marker_def marker_packet_def
          write_packet_def start_request_def can_write_def Let_def)
  have pass: "process_message_pass D C m s =
               (case on_socket_timeout (m, s1 \<lparr> pending := rest \<rparr>) of
                  Raises e' ms' \<Rightarrow> Raises e' ms'
                | No_return \<Rightarrow> No_return
                | Returns u ms' \<Rightarrow> Returns False ms')"
    by (simp add: process_message_pass_def tb)
  show ?thesis
    by (auto simp: pass on_socket_timeout_def be recovery_timed_out_def Let_def)
qed

theorem first_receive_timeout_recovery_witness:
  "process_message 1 example_deps example_codec example_message
     (ready_connection \<lparr> pending := [Recv_timeout, Packet (data_packet [])] \<rparr>)
   = Raises (ERR_CALL_TIMEOUT_EXCEEDED 5000)
       (example_message,
        ready_connection
          \<lparr> packet_sent := True,
            sent := [Sent Conn_write_buf (data_packet [3]),
                     Sent Fresh_write_buf
                       \<lparr> packet_type = 12, packet_flags = 0, payload = [1, 0, 1] \<rparr>],
            pending := [] \<rparr>)
   \<and> process_message 1 example_deps example_codec example_message
     (ready_connection \<lparr> caps := example_caps \<lparr> supports_oob := True \<rparr>,
                         pending := [Recv_timeout, Recv_timeout] \<rparr>)
   = Raises (ERR_CONNECTION_CLOSED
               ''socket timed out while recovering from previous socket timeout'')
       (example_message,
        ready_connection
          \<lparr> caps := example_caps \<lparr> supports_oob := True \<rparr>,
            transport := False, socket_open := False, rb_transport := False,
            wb_transport := False, packet_sent := True, break_in_progress := True,
            sent := [Sent Conn_write_buf (data_packet [3]), Oob_break, Disconnect],
            pending := [] \<rparr>)"
  using first_receive_timeout_recovery
    [of example_codec example_message
        "ready_connection \<lparr> pending := [Recv_timeout, Packet (data_packet [])] \<rparr>"
        "ready_connection \<lparr> pending := [Recv_timeout, Packet (data_packet [])],
                            packet_sent := True,
                            sent := [Sent Conn_write_buf (data_packet [3])] \<rparr>"
        "[Packet (data_packet [])]" 0 example_deps]
    first_receive_timeout_recovery
    [of example_codec example_message
        "ready_connection \<lparr> caps := example_caps \<lparr> supports_oob := True \<rparr>,
                            pending := [Recv_timeout, Recv_timeout] \<rparr>"
        "ready_connection \<lparr> caps := example_caps \<lparr> supports_oob := True \<rparr>,
                            pending := [Recv_timeout, Recv_timeout],
                            packet_sent := True,
                            sent := [Sent Conn_write_buf (data_packet [3])] \<rparr>"
        "[Recv_timeout]" 0 example_deps]
  by (simp add: engine_defs scenario_defs tns_defs)

text \<open>
  The claim as first stated has the engine issue a break after every such timeout.
  With a break already in progress (a cancel from another thread arrived just before
  the timeout) \<^verbatim>\<open>_break_external\<close> does nothing: the trace of the call holds the
  request and no break.
\<close>

theorem timeout_with_break_in_progress_sends_no_break:
  "process_message 1 example_deps example_codec example_message
     (ready_connection \<lparr> break_in_progress := True,
                         pending := [Recv_timeout, Packet (data_packet [])] \<rparr>)
   = Raises (ERR_CALL_TIMEOUT_EXCEEDED 5000)
       (example_message,
        ready_connection
          \<lparr> packet_sent := True,
            sent := [Sent Conn_write_buf (data_packet [3])],
            pending := [] \<rparr>)"
  by (simp add: engine_defs scenario_defs tns_defs)

subsection \<open>Server errors: retry or raise\<close>

text \<open>
  Claim C2. The \<^verbatim>\<open>try\<close> block of \<^verbatim>\<open>_process_message\<close> has returned and the two
  steps after it (flush of OUT binds, answer to a break) have left the message \<open>m3\<close>
  with \<open>error_occurred\<close> set. If the codec set \<open>retry\<close>, the call is one call of
  \<^verbatim>\<open>_process_message\<close> on the same message with \<open>error_occurred\<close> cleared. If
  not, the call raises the exception whose class \<^verbatim>\<open>get_exception_class\<close> gives for
  the error number and which carries the message text, the number and the position of
  the error information.
\<close>

theorem server_error_retry_or_raise:
  assumes "try_block C m s = Returns () ms1"
    and "settle_response D C ms1 = Returns () (m3, s3)"
    and "error_occurred m3"
  shows
    "(retry m3 \<longrightarrow>
        process_message (Suc depth) D C m s =
          process_message depth D C (m3 \<lparr> error_occurred := False \<rparr>)
            (s3 \<lparr> txn_in_progress := (call_status m3 AND TNS_TXN_IN_PROGRESS D \<noteq> 0) \<rparr>))
     \<and> (\<not> retry m3 \<longrightarrow>
        process_message (Suc depth) D C m s =
          Raises (Oracle_error (get_exception_class D (ei_num (error_info m3)))
                    \<lparr> err_message = ei_message (error_info m3),
                      err_code = ei_num (error_info m3),
                      err_offset = ei_pos (error_info m3) \<rparr>)
                 (m3,
                  if is_session_dead D (error_of m3)
                  then force_close
                         (s3 \<lparr> txn_in_progress :=
                                 (call_status m3 AND TNS_TXN_IN_PROGRESS D \<noteq> 0) \<rparr>)
                  else s3 \<lparr> txn_in_progress :=
                              (call_status m3 AND TNS_TXN_IN_PROGRESS D \<noteq> 0) \<rparr>))"
  using assms
  by (simp add: process_message_pass_def after_response_def finish_step_def error_of_def Let_def)

theorem server_error_retry_or_raise_witness:
  "process_message 2 example_deps example_codec example_message
     (ready_connection \<lparr> pending := [Packet (data_packet [4, 3, 164, 1]), Packet (data_packet [])] \<rparr>)
   = Returns ()
       (example_message
          \<lparr> retry := True,
            error_info := \<lparr> ei_num = 932, ei_pos = 0, ei_message = Some ''server error'' \<rparr> \<rparr>,
        ready_connection
          \<lparr> packet_sent := True,
            sent := [Sent Conn_write_buf (data_packet [3]), Sent Conn_write_buf (data_packet [3])],
            pending := [] \<rparr>)
   \<and> process_message 1 example_deps example_codec example_message
          (ready_connection \<lparr> pending := [Packet (data_packet [4, 3, 164, 0])] \<rparr>)
        = Raises (Oracle_error DatabaseError
                    \<lparr> err_message = Some ''server error'', err_code = 932, err_offset = 0 \<rparr>)
            (example_message
               \<lparr> error_occurred := True,
                 error_info := \<lparr> ei_num = 932, ei_pos = 0, ei_message = Some ''server error'' \<rparr> \<rparr>,
             ready_connection
               \<lparr> packet_sent := True, sent := [Sent Conn_write_buf (data_packet [3])],
                 current_packet := data_packet [4, 3, 164, 0] \<rparr>)"
  using server_error_retry_or_raise
    [of example_codec example_message
        "ready_connection \<lparr> pending := [Packet (data_packet [4, 3, 164, 1]), Packet (data_packet [])] \<rparr>"
        "(example_message
            \<lparr> error_occurred := True, retry := True,
              error_info := \<lparr> ei_num = 932, ei_pos = 0, ei_message = Some ''server error'' \<rparr> \<rparr>,
          ready_connection
            \<lparr> packet_sent := True, sent := [Sent Conn_write_buf (data_packet [3])],
              current_packet := data_packet [4, 3, 164, 1],
              pending := [Packet (data_packet [])] \<rparr>)"
        example_deps
        "example_message
            \<lparr> error_occurred := True, retry := True,
              error_info := \<lparr> ei_num = 932, ei_pos = 0, ei_message = Some ''server error'' \<rparr> \<rparr>"
        "ready_connection
            \<lparr> packet_sent := True, sent := [Sent Conn_write_buf (data_packet [3])],
              current_packet := data_packet [4, 3, 164, 1],
              pending := [Packet (data_packet [])] \<rparr>"
        1]
    server_error_retry_or_raise
    [of example_codec example_message
        "ready_connection \<lparr> pending := [Packet (data_packet [4, 3, 164, 0])] \<rparr>"
        "(example_message
            \<lparr> error_occurred := True,
              error_info := \<lparr> ei_num = 932, ei_pos = 0, ei_message = Some ''server error'' \<rparr> \<rparr>,
          ready_connection
            \<lparr> packet_sent := True, sent := [Sent Conn_write_buf (data_packet [3])],
              current_packet := data_packet [4, 3, 164, 0],
              pending := [] \<rparr>)"
        example_deps
        "example_message
            \<lparr> error_occurred := True,
              error_info := \<lparr> ei_num = 932, ei_pos = 0, ei_message = Some ''server error'' \<rparr> \<rparr>"
        "ready_connection
            \<lparr> packet_sent := True, sent := [Sent Conn_write_buf (data_packet [3])],
              current_packet := data_packet [4, 3, 164, 0],
              pending := [] \<rparr>"
        0]
  by (simp add: engine_defs scenario_defs tns_defs numeral_2_eq_2)

subsection \<open>Exceptions after a request was written\<close>



text \<open>
  The claim as first stated has every exception answered by a BREAK marker and a
  \<^verbatim>\<open>_reset\<close> that clears \<open>break_in_progress\<close> before the exception propagates.
  In the first call below the server falls silent after the answer that cannot be
  decoded: a read of \<^verbatim>\<open>_reset\<close> times out, the call raises the socket timeout and
  not the exception caught, and \<open>break_in_progress\<close> is still set. In the second the
  exception is a \<^verbatim>\<open>KeyboardInterrupt\<close>, which \<^verbatim>\<open>except Exception\<close> does not catch:
  it propagates with nothing but the request sent.
\<close>

theorem timeout_in_reset_keeps_break_in_progress:
  "process_message 1 example_deps example_codec example_message
     (ready_connection
        \<lparr> break_in_progress := True,
          pending := [Packet (data_packet [255]), Packet (data_packet [7]), Recv_timeout] \<rparr>)
   = Raises Socket_timeout
       (example_message,
        ready_connection
          \<lparr> break_in_progress := True, packet_sent := True,
            sent := [Sent Conn_write_buf (data_packet [3]),
                     Sent Conn_write_buf
                       \<lparr> packet_type = 12, packet_flags = 0, payload = [1, 0, 3] \<rparr>,
                     Sent Conn_write_buf
                       \<lparr> packet_type = 12, packet_flags = 0, payload = [1, 0, 2] \<rparr>],
            current_packet := data_packet [7], pending := [] \<rparr>)
   \<and> process_message 1 example_deps example_codec example_message
       (ready_connection \<lparr> pending := [Packet (data_packet [254])] \<rparr>)
     = Raises KeyboardInterrupt
         (example_message,
          ready_connection
            \<lparr> packet_sent := True, sent := [Sent Conn_write_buf (data_packet [3])],
              current_packet := data_packet [254] \<rparr>)"
  by (simp add: engine_defs scenario_defs tns_defs reset_def)
     (simp add: reset_discard.simps reset_skip_markers.simps engine_defs scenario_defs tns_defs)

subsection \<open>Session dead\<close>

text \<open>
  Claim C5. A server error that is not retried and that the errors module classifies
  as session dead surfaces from \<^verbatim>\<open>_process_message\<close> on a connection whose
  transport is there. Then the state in which the exception is raised has the
  transport taken from the protocol and from both buffers and the socket disconnected
  (the disconnect is the last entry of the trace), and every later call of
  \<^verbatim>\<open>_process_message\<close> on that state, for any message and codec, raises and sends
  nothing.
\<close>

theorem session_dead_forces_close:
  assumes "try_block C m s = Returns () ms1"
    and "settle_response D C ms1 = Returns () (m3, s3)"
    and "error_occurred m3" and "\<not> retry m3"
    and "is_session_dead D (error_of m3)"
    and "transport s3"
  shows
    "\<exists>s4. process_message (Suc depth) D C m s =
            Raises (Oracle_error (get_exception_class D (ei_num (error_info m3))) (error_of m3))
                   (m3, s4)
          \<and> \<not> transport s4 \<and> \<not> rb_transport s4 \<and> \<not> wb_transport s4 \<and> \<not> socket_open s4
          \<and> sent s4 = sent s3 @ [Disconnect]
          \<and> (\<forall>d' D' C' m'. \<exists>e ms.
                process_message (Suc d') D' (C' :: 'b message_scheme codec) m' s4 = Raises e ms
                \<and> sent (snd ms) = sent s4)"
proof -
  let ?s4 = "force_close (s3 \<lparr> txn_in_progress := (call_status m3 AND TNS_TXN_IN_PROGRESS D \<noteq> 0) \<rparr>)"
  have run: "process_message (Suc depth) D C m s =
          Raises (Oracle_error (get_exception_class D (ei_num (error_info m3))) (error_of m3))
                 (m3, ?s4)"
    using assms(1-5)
    by (simp add: process_message_pass_def after_response_def finish_step_def Let_def)
  have closed: "\<not> transport ?s4" "\<not> rb_transport ?s4" "\<not> wb_transport ?s4" "\<not> socket_open ?s4"
    and trace: "sent ?s4 = sent s3 @ [Disconnect]"
    using assms(6) by (simp_all add: force_close_def)
  have later: "\<forall>d' D' C' m'. \<exists>e ms.
                process_message (Suc d') D' (C' :: 'b message_scheme codec) m' ?s4 = Raises e ms
                \<and> sent (snd ms) = sent ?s4"
    using closed_connection_unusable [OF closed] by blast
  show ?thesis
    using run closed trace later by blast
qed

theorem session_dead_forces_close_witness:
  "process_message 1 example_deps example_codec example_message
     (ready_connection \<lparr> pending := [Packet (data_packet [4, 12, 41, 0])] \<rparr>)
   = Raises (Oracle_error OperationalError
               \<lparr> err_message = Some ''server error'', err_code = 3113, err_offset = 0 \<rparr>)
       (example_message
          \<lparr> error_occurred := True,
            error_info := \<lparr> ei_num = 3113, ei_pos = 0, ei_message = Some ''server error'' \<rparr> \<rparr>,
        ready_connection
          \<lparr> transport := False, socket_open := False, rb_transport := False,
            wb_transport := False, packet_sent := True,
            current_packet := data_packet [4, 12, 41, 0],
            sent := [Sent Conn_write_buf (data_packet [3]), Disconnect] \<rparr>)
   \<and> process_message 1 example_deps example_codec example_message
       (ready_connection
          \<lparr> transport := False, socket_open := False, rb_transport := False,
            wb_transport := False, packet_sent := True,
            current_packet := data_packet [4, 12, 41, 0],
            sent := [Sent Conn_write_buf (data_packet [3]), Disconnect] \<rparr>)
     = Raises (ERR_CONNECTION_CLOSED [])
         (example_message,
          ready_connection
            \<lparr> transport := False, socket_open := False, rb_transport := False,
              wb_transport := False, packet_sent := False,
              current_packet := data_packet [4, 12, 41, 0],
              sent := [Sent Conn_write_buf (data_packet [3]), Disconnect] \<rparr>)"
  using session_dead_forces_close
    [of example_codec example_message
        "ready_connection \<lparr> pending := [Packet (data_packet [4, 12, 41, 0])] \<rparr>"
        "(example_message
            \<lparr> error_occurred := True,
              error_info := \<lparr> ei_num = 3113, ei_pos = 0, ei_message = Some ''server error'' \<rparr> \<rparr>,
          ready_connection
            \<lparr> packet_sent := True, sent := [Sent Conn_write_buf (data_packet [3])],
              current_packet := data_packet [4, 12, 41, 0] \<rparr>)"
        example_deps
        "example_message
            \<lparr> error_occurred := True,
              error_info := \<lparr> ei_num = 3113, ei_pos = 0, ei_message = Some ''server error'' \<rparr> \<rparr>"
        "ready_connection
            \<lparr> packet_sent := True, sent := [Sent Conn_write_buf (data_packet [3])],
              current_packet := data_packet [4, 12, 41, 0] \<rparr>"
        0]
  by (simp add: engine_defs scenario_defs tns_defs)

subsection \<open>Refusal by the listener\<close>



subsection \<open>Connect phase two: the cookie\<close>

lemmas connect_defs =
  connect_phase_two_def phase_two_check_def phase_two_first_def phase_two_regular_def
  phase_two_finish_def populate_cookie_def connect_phase_one_def connect_tcp_def
  proxy_step_def tls_step_def redirect_step_def tcps_step_def current_connect_message_def

lemmas connect_scenario_defs =
  example_cookie_def example_phase_two_env_def example_params_def example_description_def
  example_connect_codec_def example_phase_one_env_def example_address_def new_connection_def
  message.defs protocol_message.defs auth_message.defs cookie_message.defs connect_message.defs

text \<open>
  Claim C8, as amended. The checks that open \<^verbatim>\<open>_connect_phase_two\<close> have passed.

  \<^item> A cookie that is populated on entry is sent in a cookie message, together with
    the three other messages. If it is still populated when that message has been
    processed, phase two is collapsed: neither the data types message nor the
    authorization message is processed, and the cookie is left as the processing of the
    cookie message left it.

  \<^item> If the processing of the cookie message cleared \<open>populated\<close> (the server asked
    for a renegotiation), the data types message and the authorization message are
    processed and the fields of the cookie are assigned again.

  \<^item> With no cookie, or with a cookie that is not populated, the protocol message,
    the data types message and the authorization message are processed one after the
    other; a cookie that is there has its fields assigned, from the protocol message
    and the character sets of the capabilities, with \<open>populated\<close> set in the same
    step.

  In each case phase two ends as \<open>phase_two_finish\<close> says: the authorization message
  is processed once more when it asks for it, and the connect phase is over. Whenever
  phase two returns, a cookie that is there is populated.
\<close>

theorem phase_two_cookie_written_when_unpopulated:
  assumes "phase_two_check D s = Returns () s0"
  shows
    "(ck = Some c \<and> populated c
        \<and> process_message depth D (cookie_codec E)
            (message.extend (new_cookie_message E)
               (cookie_message.fields c (new_protocol_message E) (new_data_types_message E)
                  (set_params E params descr (new_auth_message E)))) s0
          = Returns () (cm, s1)
        \<and> populated (cookie cm)
      \<longrightarrow> connect_phase_two depth D E ck descr params s =
            phase_two_finish depth D E
              \<lparr> l_sent_cookie = True, l_protocol_message = cm_protocol_message cm,
                l_data_types_message = cm_data_types_message cm,
                l_auth_message = cm_auth_message cm \<rparr>
              (Some (cookie cm), s1))
     \<and> (ck = Some c \<and> populated c
        \<and> process_message depth D (cookie_codec E)
            (message.extend (new_cookie_message E)
               (cookie_message.fields c (new_protocol_message E) (new_data_types_message E)
                  (set_params E params descr (new_auth_message E)))) s0
          = Returns () (cm, s1)
        \<and> \<not> populated (cookie cm)
        \<and> process_message depth D (data_types_codec E) (cm_data_types_message cm) s1
          = Returns () (dm, s2)
        \<and> process_message depth D (auth_codec E) (cm_auth_message cm) s2 = Returns () (am, s3)
      \<longrightarrow> connect_phase_two depth D E ck descr params s =
            phase_two_finish depth D E
              \<lparr> l_sent_cookie = True, l_protocol_message = cm_protocol_message cm,
                l_data_types_message = dm, l_auth_message = am \<rparr>
              (Some \<lparr> ck_protocol_version = server_version (cm_protocol_message cm),
                      ck_server_banner = server_banner (cm_protocol_message cm),
                      ck_charset_id = charset_id (caps s3),
                      ck_ncharset_id = ncharset_id (caps s3),
                      ck_flags = server_flags (cm_protocol_message cm),
                      ck_compile_caps = server_compile_caps (cm_protocol_message cm),
                      ck_runtime_caps = server_runtime_caps (cm_protocol_message cm),
                      populated = True \<rparr>,
               s3))
     \<and> ((ck = None \<or> (\<exists>c0. ck = Some c0 \<and> \<not> populated c0))
        \<and> process_message depth D (protocol_codec E) (new_protocol_message E) s0
          = Returns () (pm, t1)
        \<and> process_message depth D (data_types_codec E) (new_data_types_message E) t1
          = Returns () (dm0, t2)
        \<and> process_message depth D (auth_codec E)
            (set_params E params descr (new_auth_message E)) t2
          = Returns () (am0, t3)
      \<longrightarrow> connect_phase_two depth D E ck descr params s =
            phase_two_finish depth D E
              \<lparr> l_sent_cookie = False, l_protocol_message = pm,
                l_data_types_message = dm0, l_auth_message = am0 \<rparr>
              (case ck of
                 None \<Rightarrow> None
               | Some c0 \<Rightarrow>
                   Some \<lparr> ck_protocol_version = server_version pm,
                          ck_server_banner = server_banner pm,
                          ck_charset_id = charset_id (caps t3),
                          ck_ncharset_id = ncharset_id (caps t3),
                          ck_flags = server_flags pm,
                          ck_compile_caps = server_compile_caps pm,
                          ck_runtime_caps = server_runtime_caps pm,
                          populated = True \<rparr>,
               t3))
     \<and> phase_two_finish depth D E L (ck2, u) =
         (if resend (l_auth_message L) then
            (case process_message depth D (auth_codec E) (l_auth_message L) u of
               Raises e ms \<Rightarrow> Raises e (ck2, snd ms)
             | No_return \<Rightarrow> No_return
             | Returns x ms \<Rightarrow>
                 Returns (warning (fst ms)) (ck2, (snd ms) \<lparr> in_connect := False \<rparr>))
          else Returns (warning (l_auth_message L)) (ck2, u \<lparr> in_connect := False \<rparr>))
     \<and> (connect_phase_two depth D E ck descr params s = Returns w (ck', s')
        \<longrightarrow> (\<forall>c'. ck' = Some c' \<longrightarrow> populated c'))"
proof -
  have collapsed:
    "connect_phase_two depth D E ck descr params s =
       phase_two_finish depth D E
         \<lparr> l_sent_cookie = True, l_protocol_message = cm_protocol_message cm,
           l_data_types_message = cm_data_types_message cm,
           l_auth_message = cm_auth_message cm \<rparr>
         (Some (cookie cm), s1)"
    if "ck = Some c" "populated c"
      "process_message depth D (cookie_codec E)
            (message.extend (new_cookie_message E)
               (cookie_message.fields c (new_protocol_message E) (new_data_types_message E)
                  (set_params E params descr (new_auth_message E)))) s0
          = Returns () (cm, s1)"
      "populated (cookie cm)"
    using assms that
    by (simp add: connect_phase_two_def phase_two_first_def phase_two_regular_def Let_def)
  have renegotiated:
    "connect_phase_two depth D E ck descr params s =
            phase_two_finish depth D E
              \<lparr> l_sent_cookie = True, l_protocol_message = cm_protocol_message cm,
                l_data_types_message = dm, l_auth_message = am \<rparr>
              (Some \<lparr> ck_protocol_version = server_version (cm_protocol_message cm),
                      ck_server_banner = server_banner (cm_protocol_message cm),
                      ck_charset_id = charset_id (caps s3),
                      ck_ncharset_id = ncharset_id (caps s3),
                      ck_flags = server_flags (cm_protocol_message cm),
                      ck_compile_caps = server_compile_caps (cm_protocol_message cm),
                      ck_runtime_caps = server_runtime_caps (cm_protocol_message cm),
                      populated = True \<rparr>,
               s3)"
    if "ck = Some c" "populated c"
      "process_message depth D (cookie_codec E)
            (message.extend (new_cookie_message E)
               (cookie_message.fields c (new_protocol_message E) (new_data_types_message E)
                  (set_params E params descr (new_auth_message E)))) s0
          = Returns () (cm, s1)"
      "\<not> populated (cookie cm)"
      "process_message depth D (data_types_codec E) (cm_data_types_message cm) s1
          = Returns () (dm, s2)"
      "process_message depth D (auth_codec E) (cm_auth_message cm) s2 = Returns () (am, s3)"
  proof -
    have full: "populate_cookie (cm_protocol_message cm) (caps s3) (cookie cm) =
                  \<lparr> ck_protocol_version = server_version (cm_protocol_message cm),
                    ck_server_banner = server_banner (cm_protocol_message cm),
                    ck_charset_id = charset_id (caps s3),
                    ck_ncharset_id = ncharset_id (caps s3),
                    ck_flags = server_flags (cm_protocol_message cm),
                    ck_compile_caps = server_compile_caps (cm_protocol_message cm),
                    ck_runtime_caps = server_runtime_caps (cm_protocol_message cm),
                    populated = True \<rparr>"
      by (cases "cookie cm") (simp add: populate_cookie_def)
    show ?thesis
      using assms that
      by (simp add: connect_phase_two_def phase_two_first_def phase_two_regular_def Let_def full)
  qed
  have regular:
    "connect_phase_two depth D E ck descr params s =
            phase_two_finish depth D E
              \<lparr> l_sent_cookie = False, l_protocol_message = pm,
                l_data_types_message = dm0, l_auth_message = am0 \<rparr>
              (case ck of
                 None \<Rightarrow> None
               | Some c0 \<Rightarrow>
                   Some \<lparr> ck_protocol_version = server_version pm,
                          ck_server_banner = server_banner pm,
                          ck_charset_id = charset_id (caps t3),
                          ck_ncharset_id = ncharset_id (caps t3),
                          ck_flags = server_flags pm,
                          ck_compile_caps = server_compile_caps pm,
                          ck_runtime_caps = server_runtime_caps pm,
                          populated = True \<rparr>,
               t3)"
    if "ck = None \<or> (\<exists>c0. ck = Some c0 \<and> \<not> populated c0)"
      "process_message depth D (protocol_codec E) (new_protocol_message E) s0
          = Returns () (pm, t1)"
      "process_message depth D (data_types_codec E) (new_data_types_message E) t1
          = Returns () (dm0, t2)"
      "process_message depth D (auth_codec E)
            (set_params E params descr (new_auth_message E)) t2
          = Returns () (am0, t3)"
  proof -
    have full: "populate_cookie pm (caps t3) c0 =
                  \<lparr> ck_protocol_version = server_version pm,
                    ck_server_banner = server_banner pm,
                    ck_charset_id = charset_id (caps t3),
                    ck_ncharset_id = ncharset_id (caps t3),
                    ck_flags = server_flags pm,
                    ck_compile_caps = server_compile_caps pm,
                    ck_runtime_caps = server_runtime_caps pm,
                    populated = True \<rparr>" for c0
      by (cases c0) (simp add: populate_cookie_def)
    show ?thesis
      using assms that
      by (auto simp: connect_phase_two_def phase_two_first_def phase_two_regular_def Let_def full)
  qed
  have finish: "phase_two_finish depth D E L (ck2, u) =
         (if resend (l_auth_message L) then
            (case process_message depth D (auth_codec E) (l_auth_message L) u of
               Raises e ms \<Rightarrow> Raises e (ck2, snd ms)
             | No_return \<Rightarrow> No_return
             | Returns x ms \<Rightarrow>
                 Returns (warning (fst ms)) (ck2, (snd ms) \<lparr> in_connect := False \<rparr>))
          else Returns (warning (l_auth_message L)) (ck2, u \<lparr> in_connect := False \<rparr>))"
    by (simp add: phase_two_finish_def Let_def)
  have pop: "\<forall>c'. ck' = Some c' \<longrightarrow> populated c'"
    if ret: "connect_phase_two depth D E ck descr params s = Returns w (ck', s')"
  proof -
    from ret assms obtain L ck1 u1 where
      fst: "phase_two_first depth D E params descr (ck, s0) = Returns L (ck1, u1)"
      by (auto simp: connect_phase_two_def split: outcome.splits)
    from ret assms fst obtain L' ck2 u2 where
      reg: "phase_two_regular depth D E L (ck1, u1) = Returns L' (ck2, u2)"
      by (auto simp: connect_phase_two_def split: outcome.splits)
    from ret assms fst reg
    have fin: "phase_two_finish depth D E L' (ck2, u2) = Returns w (ck', s')"
      by (simp add: connect_phase_two_def)
    have same: "ck' = ck2"
      using fin by (auto simp: phase_two_finish_def Let_def split: if_splits outcome.splits)
    have sent_cookie: "l_sent_cookie L \<or> (ck1 = ck \<and> (\<forall>c. ck = Some c \<longrightarrow> \<not> populated c))"
      using fst
      by (auto simp: phase_two_first_def Let_def split: outcome.splits option.splits if_splits)
    have "\<forall>c'. ck2 = Some c' \<longrightarrow> populated c'"
      using reg sent_cookie
      by (auto simp: phase_two_regular_def populate_cookie_def Let_def
            split: if_splits outcome.splits option.splits)
    then show ?thesis using same by simp
  qed
  show ?thesis
    using collapsed renegotiated regular finish pop by blast
qed

theorem phase_two_cookie_written_when_unpopulated_witness:
  "connect_phase_two 1 example_deps example_phase_two_env (Some example_cookie)
     example_description example_params
     (new_connection \<lparr> socket_open := True, pending := [Packet (data_packet [])] \<rparr>)
   = Returns None
       (Some example_cookie,
        new_connection
          \<lparr> socket_open := True, packet_sent := True, in_connect := False,
            sent := [Sent Conn_write_buf (data_packet [30])] \<rparr>)
   \<and> connect_phase_two 1 example_deps example_phase_two_env
       (Some (example_cookie \<lparr> populated := False \<rparr>))
       example_description example_params
       (new_connection
          \<lparr> socket_open := True, caps := example_caps \<lparr> charset_id := 46 \<rparr>,
            pending := [Packet (data_packet [19]), Packet (data_packet []),
                        Packet (data_packet [])] \<rparr>)
   = Returns None
       (Some \<lparr> ck_protocol_version = 319, ck_server_banner = [], ck_charset_id = 46,
               ck_ncharset_id = 2000, ck_flags = 0, ck_compile_caps = [],
               ck_runtime_caps = [], populated = True \<rparr>,
        new_connection
          \<lparr> socket_open := True, caps := example_caps \<lparr> charset_id := 46 \<rparr>,
            packet_sent := True, in_connect := False,
            sent := [Sent Conn_write_buf (data_packet [1]), Sent Conn_write_buf (data_packet [2]),
                     Sent Conn_write_buf (data_packet [3, 118])] \<rparr>)
   \<and> connect_phase_two 1 example_deps example_phase_two_env (Some example_cookie)
       example_description example_params
       (new_connection
          \<lparr> socket_open := True,
            pending := [Packet (data_packet [28]), Packet (data_packet []),
                        Packet (data_packet [])] \<rparr>)
   = Returns None
       (Some \<lparr> ck_protocol_version = 0, ck_server_banner = [], ck_charset_id = 873,
               ck_ncharset_id = 2000, ck_flags = 0, ck_compile_caps = [],
               ck_runtime_caps = [], populated = True \<rparr>,
        new_connection
          \<lparr> socket_open := True, packet_sent := True, in_connect := False,
            sent := [Sent Conn_write_buf (data_packet [30]), Sent Conn_write_buf (data_packet [2]),
                     Sent Conn_write_buf (data_packet [3, 118])] \<rparr>)"
  using phase_two_cookie_written_when_unpopulated
    [where D = example_deps and E = example_phase_two_env and depth = 1
       and s = "new_connection \<lparr> socket_open := True, pending := [Packet (data_packet [])] \<rparr>"
       and ?s0.0 = "new_connection \<lparr> socket_open := True, pending := [Packet (data_packet [])] \<rparr>"
       and ck = "Some example_cookie" and c = example_cookie
       and params = example_params and descr = example_description
       and cm = "message.extend example_message
                   (cookie_message.fields example_cookie
                      (message.extend example_message (protocol_message.fields 0 [] 0 [] []))
                      example_message
                      (message.extend example_message (auth_message.fields None)))"
       and ?s1.0 = "new_connection
                      \<lparr> socket_open := True, packet_sent := True,
                        sent := [Sent Conn_write_buf (data_packet [30])] \<rparr>",
     THEN conjunct1]
    phase_two_cookie_written_when_unpopulated
    [where D = example_deps and E = example_phase_two_env and depth = 1
       and s = "new_connection
          \<lparr> socket_open := True, caps := example_caps \<lparr> charset_id := 46 \<rparr>,
            pending := [Packet (data_packet [19]), Packet (data_packet []),
                        Packet (data_packet [])] \<rparr>"
       and ?s0.0 = "new_connection
          \<lparr> socket_open := True, caps := example_caps \<lparr> charset_id := 46 \<rparr>,
            pending := [Packet (data_packet [19]), Packet (data_packet []),
                        Packet (data_packet [])] \<rparr>"
       and ck = "Some (example_cookie \<lparr> populated := False \<rparr>)"
       and params = example_params and descr = example_description
       and pm = "message.extend example_message (protocol_message.fields 319 [] 0 [] [])"
       and ?t1.0 = "new_connection
          \<lparr> socket_open := True, caps := example_caps \<lparr> charset_id := 46 \<rparr>,
            packet_sent := True, current_packet := data_packet [19],
            sent := [Sent Conn_write_buf (data_packet [1])],
            pending := [Packet (data_packet []), Packet (data_packet [])] \<rparr>"
       and ?dm0.0 = example_message
       and ?t2.0 = "new_connection
          \<lparr> socket_open := True, caps := example_caps \<lparr> charset_id := 46 \<rparr>,
            packet_sent := True,
            sent := [Sent Conn_write_buf (data_packet [1]), Sent Conn_write_buf (data_packet [2])],
            pending := [Packet (data_packet [])] \<rparr>"
       and ?am0.0 = "message.extend example_message (auth_message.fields None)"
       and ?t3.0 = "new_connection
          \<lparr> socket_open := True, caps := example_caps \<lparr> charset_id := 46 \<rparr>,
            packet_sent := True,
            sent := [Sent Conn_write_buf (data_packet [1]), Sent Conn_write_buf (data_packet [2]),
                     Sent Conn_write_buf (data_packet [3, 118])],
            pending := [] \<rparr>",
     THEN conjunct2, THEN conjunct2, THEN conjunct1]
    phase_two_cookie_written_when_unpopulated
    [where D = example_deps and E = example_phase_two_env and depth = 1
       and s = "new_connection
          \<lparr> socket_open := True,
            pending := [Packet (data_packet [28]), Packet (data_packet []),
                        Packet (data_packet [])] \<rparr>"
       and ?s0.0 = "new_connection
          \<lparr> socket_open := True,
            pending := [Packet (data_packet [28]), Packet (data_packet []),
                        Packet (data_packet [])] \<rparr>"
       and ck = "Some example_cookie" and c = example_cookie
       and params = example_params and descr = example_description
       and cm = "message.extend example_message
                   (cookie_message.fields (example_cookie \<lparr> populated := False \<rparr>)
                      (message.extend example_message (protocol_message.fields 0 [] 0 [] []))
                      example_message
                      (message.extend example_message (auth_message.fields None)))"
       and ?s1.0 = "new_connection
          \<lparr> socket_open := True, packet_sent := True, current_packet := data_packet [28],
            sent := [Sent Conn_write_buf (data_packet [30])],
            pending := [Packet (data_packet []), Packet (data_packet [])] \<rparr>"
       and dm = example_message
       and ?s2.0 = "new_connection
          \<lparr> socket_open := True, packet_sent := True,
            sent := [Sent Conn_write_buf (data_packet [30]), Sent Conn_write_buf (data_packet [2])],
            pending := [Packet (data_packet [])] \<rparr>"
       and am = "message.extend example_message (auth_message.fields None)"
       and ?s3.0 = "new_connection
          \<lparr> socket_open := True, packet_sent := True,
            sent := [Sent Conn_write_buf (data_packet [30]), Sent Conn_write_buf (data_packet [2]),
                     Sent Conn_write_buf (data_packet [3, 118])],
            pending := [] \<rparr>",
     THEN conjunct2, THEN conjunct1]
  by (simp add: connect_defs connect_scenario_defs engine_defs scenario_defs tns_defs)

text \<open>
  The claim as first stated has a cookie that is populated on entry never changed. The
  cookie below is populated on entry; the processing of the cookie message clears the
  flag, and phase two then assigns all its fields.
\<close>

theorem populated_cookie_rewritten_after_renegotiation:
  "populated example_cookie
   \<and> connect_phase_two 1 example_deps example_phase_two_env (Some example_cookie)
       example_description example_params
       (new_connection
          \<lparr> socket_open := True, caps := example_caps \<lparr> charset_id := 46 \<rparr>,
            pending := [Packet (data_packet [28]), Packet (data_packet []),
                        Packet (data_packet [])] \<rparr>)
   = Returns None
       (Some \<lparr> ck_protocol_version = 0, ck_server_banner = [], ck_charset_id = 46,
               ck_ncharset_id = 2000, ck_flags = 0, ck_compile_caps = [],
               ck_runtime_caps = [], populated = True \<rparr>,
        new_connection
          \<lparr> socket_open := True, caps := example_caps \<lparr> charset_id := 46 \<rparr>,
            packet_sent := True, in_connect := False,
            sent := [Sent Conn_write_buf (data_packet [30]), Sent Conn_write_buf (data_packet [2]),
                     Sent Conn_write_buf (data_packet [3, 118])] \<rparr>)"
  by (simp add: connect_defs connect_scenario_defs engine_defs scenario_defs tns_defs)

subsection \<open>Connect phase one: redirect\<close>

lemma decode_encode: "decode_bytes (encode_str text) = text"
  by (simp add: decode_bytes_def encode_str_def comp_def)

text \<open>
  Claim C3 at a TCPS address. The listener answers the first connect message with a
  REDIRECT packet whose header flags are 0 and whose data holds a NUL. Phase one
  connects to the new host and port and sends a new connect message with the text after
  the NUL, but the flags of that message are 0: at the end of the loop body the local
  \<^verbatim>\<open>packet_flags\<close>, just set to \<^verbatim>\<open>TNS_PACKET_FLAG_REDIRECT\<close>, is overwritten with
  the flags of the packet received. At a TCP address the same exchange sends the new
  connect message with the REDIRECT flag.
\<close>

theorem redirect_on_tcps_loses_redirect_flag:
  "connect_phase_one 2 1 example_deps example_phase_one_env example_connect_codec
     example_params example_description (example_address ''tcps'') ''cs1''
     (new_connection
        \<lparr> pending :=
            [Packet \<lparr> packet_type = TNS_PACKET_TYPE_REDIRECT, packet_flags = 0,
                      payload = encode_str (''h2'' @ [CHR 0x00] @ ''cs2'') \<rparr>,
             Packet \<lparr> packet_type = TNS_PACKET_TYPE_ACCEPT, packet_flags = 0,
                      payload = [] \<rparr>] \<rparr>)
   = Returns None
       (new_connection
          \<lparr> socket_open := True, packet_sent := True,
            current_packet := \<lparr> packet_type = TNS_PACKET_TYPE_ACCEPT, packet_flags = 0,
                                payload = [] \<rparr>,
            sent :=
              [Tcp_connect ''h1'' 2484, Tls_negotiate,
               Sent Conn_write_buf
                 \<lparr> packet_type = TNS_PACKET_TYPE_CONNECT, packet_flags = 0,
                   payload = encode_str ''cs1'' \<rparr>,
               Tcp_connect ''h2'' 1521, Tls_negotiate,
               Sent Conn_write_buf
                 \<lparr> packet_type = TNS_PACKET_TYPE_CONNECT, packet_flags = 0,
                   payload = encode_str ''cs2'' \<rparr>] \<rparr>)
   \<and> TNS_PACKET_FLAG_REDIRECT example_deps = 4
   \<and> connect_phase_one 2 1 example_deps example_phase_one_env example_connect_codec
     example_params example_description (example_address ''tcp'') ''cs1''
     (new_connection
        \<lparr> pending :=
            [Packet \<lparr> packet_type = TNS_PACKET_TYPE_REDIRECT, packet_flags = 0,
                      payload = encode_str (''h2'' @ [CHR 0x00] @ ''cs2'') \<rparr>,
             Packet \<lparr> packet_type = TNS_PACKET_TYPE_ACCEPT, packet_flags = 0,
                      payload = [] \<rparr>] \<rparr>)
   = Returns None
       (new_connection
          \<lparr> socket_open := True, packet_sent := True,
            current_packet := \<lparr> packet_type = TNS_PACKET_TYPE_ACCEPT, packet_flags = 0,
                                payload = [] \<rparr>,
            sent :=
              [Tcp_connect ''h1'' 2484,
               Sent Conn_write_buf
                 \<lparr> packet_type = TNS_PACKET_TYPE_CONNECT, packet_flags = 0,
                   payload = encode_str ''cs1'' \<rparr>,
               Tcp_connect ''h2'' 1521,
               Sent Conn_write_buf
                 \<lparr> packet_type = TNS_PACKET_TYPE_CONNECT, packet_flags = 4,
                   payload = encode_str ''cs2'' \<rparr>] \<rparr>)"
  by (simp add: connect_defs connect_scenario_defs engine_defs scenario_defs tns_defs
        decode_encode numeral_2_eq_2)

lemma str_find_first:
  "c \<notin> set a \<Longrightarrow> str_find c (a @ c # b) = int (length a)"
  by (induction a) (auto simp: Let_def)

lemma str_find_absent:
  "c \<notin> set rdata \<Longrightarrow> str_find c rdata = - 1"
  by (induction rdata) (auto simp: Let_def)

text \<open>
  Redirect at an address that is not TCPS, without proxy and access token: redirect
  data without a NUL ends phase one with \<^verbatim>\<open>ERR_INVALID_REDIRECT_DATA\<close>; otherwise,
  when the connection can be made, the loop goes on after a TCP connection to the host
  and port parsed from the text before the first NUL, and the connect message it makes next has the REDIRECT flag and
  the text after the NUL as its connect string.
\<close>

theorem redirect_replays_connect_on_plain_tcp:
  assumes "process_message depth D C (current_connect_message E descr v) s = Returns () (cm, s1)"
    and "redirect_data cm = Some rdata"
    and "addr_protocol addr \<noteq> ''tcps''" and "https_proxy addr = None"
    and "\<not> has_token params" and "\<not> has_access_token_callback params"
  shows
    "(CHR 0x00 \<notin> set rdata \<longrightarrow>
        phase_one_loop (Suc passes) depth D E C params descr addr v s =
          Raises (ERR_INVALID_REDIRECT_DATA rdata) s1)
     \<and> (\<forall>before after t ts.
          rdata = before @ CHR 0x00 # after \<and> CHR 0x00 \<notin> set before
          \<and> parse_connect_string E before = Inr (t # ts)
          \<and> create_connection E (addr_host t) (addr_port t) (tcp_connect_timeout descr) = None
          \<longrightarrow>
          phase_one_loop (Suc passes) depth D E C params descr addr v s =
            phase_one_loop passes depth D E C params descr addr
              (v \<lparr> v_host := addr_host t, v_port := addr_port t, v_connect_string := after,
                   v_connect_message := None, v_packet_flags := TNS_PACKET_FLAG_REDIRECT D \<rparr>)
              (s1 \<lparr> sent := sent s1 @ [Tcp_connect (addr_host t) (addr_port t)],
                    socket_open := True \<rparr>)
          \<and> current_connect_message E descr
              (v \<lparr> v_host := addr_host t, v_port := addr_port t, v_connect_string := after,
                   v_connect_message := None, v_packet_flags := TNS_PACKET_FLAG_REDIRECT D \<rparr>)
            = (new_connect_message E)
                \<lparr> cm_host := addr_host t, cm_port := addr_port t, cm_description := descr,
                  connect_string_bytes := encode_str after,
                  connect_string_len := length (encode_str after) mod 65536,
                  cm_packet_flags := TNS_PACKET_FLAG_REDIRECT D \<rparr>)"
proof -
  have none: "phase_one_loop (Suc passes) depth D E C params descr addr v s =
                Raises (ERR_INVALID_REDIRECT_DATA rdata) s1"
    if "CHR 0x00 \<notin> set rdata"
    using assms(1,2) str_find_absent [OF that]
    by (simp add: redirect_step_def Let_def)
  have some: "phase_one_loop (Suc passes) depth D E C params descr addr v s =
            phase_one_loop passes depth D E C params descr addr
              (v \<lparr> v_host := addr_host t, v_port := addr_port t, v_connect_string := after,
                   v_connect_message := None, v_packet_flags := TNS_PACKET_FLAG_REDIRECT D \<rparr>)
              (s1 \<lparr> sent := sent s1 @ [Tcp_connect (addr_host t) (addr_port t)],
                    socket_open := True \<rparr>)"
    if h: "rdata = before @ CHR 0x00 # after" "CHR 0x00 \<notin> set before"
      "parse_connect_string E before = Inr (t # ts)"
      "create_connection E (addr_host t) (addr_port t) (tcp_connect_timeout descr) = None"
      for before after t ts
  proof -
    have pos: "str_find (CHR 0x00) rdata = int (length before)"
      using h(1,2) by (simp add: str_find_first)
    have tcp: "connect_tcp E params descr addr (addr_host t) (addr_port t) s1 =
                 Returns () (s1 \<lparr> sent := sent s1 @ [Tcp_connect (addr_host t) (addr_port t)],
                                  socket_open := True \<rparr>)"
      using assms(3-6) h(4) by (simp add: connect_tcp_def Let_def)
    have step: "redirect_step D E params descr addr rdata v s1 =
                  Returns (v \<lparr> v_host := addr_host t, v_port := addr_port t,
                               v_connect_string := after, v_connect_message := None,
                               v_packet_flags := TNS_PACKET_FLAG_REDIRECT D \<rparr>)
                          (s1 \<lparr> sent := sent s1 @ [Tcp_connect (addr_host t) (addr_port t)],
                                socket_open := True \<rparr>)"
      unfolding redirect_step_def Let_def pos by (simp add: h tcp)
    show ?thesis
      using assms(1,2,3) by (simp add: step tcps_step_def)
  qed
  have msg: "current_connect_message E descr
              (v \<lparr> v_host := h', v_port := p', v_connect_string := after,
                   v_connect_message := None, v_packet_flags := TNS_PACKET_FLAG_REDIRECT D \<rparr>)
            = (new_connect_message E)
                \<lparr> cm_host := h', cm_port := p', cm_description := descr,
                  connect_string_bytes := encode_str after,
                  connect_string_len := length (encode_str after) mod 65536,
                  cm_packet_flags := TNS_PACKET_FLAG_REDIRECT D \<rparr>" for h' p' after
    by (simp add: current_connect_message_def)
  show ?thesis
    using none some msg by blast
qed

theorem redirect_replays_connect_on_plain_tcp_witness:
  "connect_phase_one 2 1 example_deps example_phase_one_env example_connect_codec
     example_params example_description (example_address ''tcp'') ''cs1''
     (new_connection
        \<lparr> pending :=
            [Packet \<lparr> packet_type = TNS_PACKET_TYPE_REDIRECT, packet_flags = 0,
                      payload = encode_str (''h2'' @ [CHR 0x00] @ ''cs2'') \<rparr>,
             Packet \<lparr> packet_type = TNS_PACKET_TYPE_ACCEPT, packet_flags = 0,
                      payload = [] \<rparr>] \<rparr>)
   = Returns None
       (new_connection
          \<lparr> socket_open := True, packet_sent := True,
            current_packet := \<lparr> packet_type = TNS_PACKET_TYPE_ACCEPT, packet_flags = 0,
                                payload = [] \<rparr>,
            sent :=
              [Tcp_connect ''h1'' 2484,
               Sent Conn_write_buf
                 \<lparr> packet_type = TNS_PACKET_TYPE_CONNECT, packet_flags = 0,
                   payload = encode_str ''cs1'' \<rparr>,
               Tcp_connect ''h2'' 1521,
               Sent Conn_write_buf
                 \<lparr> packet_type = TNS_PACKET_TYPE_CONNECT, packet_flags = 4,
                   payload = encode_str ''cs2'' \<rparr>] \<rparr>)"
  using redirect_replays_connect_on_plain_tcp
    [of 1 example_deps example_connect_codec example_phase_one_env example_description
        "\<lparr> v_host = ''h1'', v_port = 2484, v_connect_string = ''cs1'',
           v_connect_message = None, v_packet_flags = 0 \<rparr>"
        "new_connection
           \<lparr> socket_open := True, sent := [Tcp_connect ''h1'' 2484],
             pending :=
               [Packet \<lparr> packet_type = TNS_PACKET_TYPE_REDIRECT, packet_flags = 0,
                         payload = encode_str (''h2'' @ [CHR 0x00] @ ''cs2'') \<rparr>,
                Packet \<lparr> packet_type = TNS_PACKET_TYPE_ACCEPT, packet_flags = 0,
                         payload = [] \<rparr>] \<rparr>"
        "current_connect_message example_phase_one_env example_description
           \<lparr> v_host = ''h1'', v_port = 2484, v_connect_string = ''cs1'',
             v_connect_message = None, v_packet_flags = 0 \<rparr>
           \<lparr> redirect_data := Some (''h2'' @ [CHR 0x00] @ ''cs2'') \<rparr>"
        "new_connection
           \<lparr> socket_open := True, packet_sent := True,
             sent := [Tcp_connect ''h1'' 2484,
                      Sent Conn_write_buf
                        \<lparr> packet_type = TNS_PACKET_TYPE_CONNECT, packet_flags = 0,
                          payload = encode_str ''cs1'' \<rparr>],
             current_packet := \<lparr> packet_type = TNS_PACKET_TYPE_REDIRECT, packet_flags = 0,
                                 payload = encode_str (''h2'' @ [CHR 0x00] @ ''cs2'') \<rparr>,
             pending := [Packet \<lparr> packet_type = TNS_PACKET_TYPE_ACCEPT, packet_flags = 0,
                                  payload = [] \<rparr>] \<rparr>"
        "''h2'' @ [CHR 0x00] @ ''cs2''" "example_address ''tcp''" example_params 1]
  by (simp add: connect_defs connect_scenario_defs engine_defs scenario_defs tns_defs
        decode_encode numeral_2_eq_2)

subsection \<open>The tables of the database types\<close>

lemma DbType_init_valid:
  assumes "valid_registration K (length (db_type_by_num T)) a"
  shows "DbType_init K (num a) (name a) (ora_name a) (native_num a) (ora_type_num a)
           (default_size a) (csfrm a) (buffer_size_factor a) T =
         Inr (a, T \<lparr> db_type_by_num := (db_type_by_num T)[nat (reg_index K a) := Some a],
                     db_type_by_ora_name := (db_type_by_ora_name T)(ora_name a \<mapsto> a),
                     db_type_by_ora_type_num := (db_type_by_ora_type_num T)(ora_key a \<mapsto> a) \<rparr>)"
proof -
  have self: "\<lparr> num = num a, name = name a, default_size = default_size a,
                 native_num = native_num a, ora_name = ora_name a,
                 ora_type_num = ora_type_num a, csfrm = csfrm a,
                 buffer_size_factor = buffer_size_factor a \<rparr> = a"
    by (cases a) simp
  show ?thesis
    using assms unfolding DbType_init_def Let_def self
    by (auto simp: valid_registration_def ora_key_def reg_index_def py_list_set_def
          py_list_index_def)
qed

lemma register_all_succeeds:
  assumes "\<forall>a \<in> set regs. valid_registration K (length (db_type_by_num T)) a"
  shows "\<exists>T'. register_all K regs T = Inr T'
              \<and> length (db_type_by_num T') = length (db_type_by_num T)"
  using assms
proof (induction regs arbitrary: T)
  case Nil
  then show ?case by simp
next
  case (Cons a regs)
  let ?T1 = "T \<lparr> db_type_by_num := (db_type_by_num T)[nat (reg_index K a) := Some a],
                 db_type_by_ora_name := (db_type_by_ora_name T)(ora_name a \<mapsto> a),
                 db_type_by_ora_type_num := (db_type_by_ora_type_num T)(ora_key a \<mapsto> a) \<rparr>"
  have "\<forall>b \<in> set regs. valid_registration K (length (db_type_by_num ?T1)) b"
    using Cons.prems by simp
  from Cons.IH [OF this] show ?case
    using Cons.prems by (simp add: DbType_init_valid)
qed

lemma register_all_keeps:
  assumes "\<forall>a \<in> set regs. valid_registration K (length (db_type_by_num T)) a"
    and "register_all K regs T = Inr T'"
  shows "(k \<notin> ora_key ` set regs \<longrightarrow> db_type_by_ora_type_num T' k = db_type_by_ora_type_num T k)
       \<and> (i \<notin> (\<lambda>a. nat (reg_index K a)) ` set regs \<longrightarrow> db_type_by_num T' ! i = db_type_by_num T ! i)"
  using assms
proof (induction regs arbitrary: T)
  case Nil
  then show ?case by simp
next
  case (Cons a regs)
  let ?T1 = "T \<lparr> db_type_by_num := (db_type_by_num T)[nat (reg_index K a) := Some a],
                 db_type_by_ora_name := (db_type_by_ora_name T)(ora_name a \<mapsto> a),
                 db_type_by_ora_type_num := (db_type_by_ora_type_num T)(ora_key a \<mapsto> a) \<rparr>"
  have v: "\<forall>b \<in> set regs. valid_registration K (length (db_type_by_num ?T1)) b"
    using Cons.prems by simp
  have r: "register_all K regs ?T1 = Inr T'"
    using Cons.prems by (simp add: DbType_init_valid)
  from Cons.IH [OF v r] show ?case
    by auto
qed

lemma register_all_finds:
  assumes "\<forall>a \<in> set regs. valid_registration K (length (db_type_by_num T)) a"
    and "register_all K regs T = Inr T'"
    and "b \<in> set regs"
  shows "(distinct (map ora_key regs) \<longrightarrow> db_type_by_ora_type_num T' (ora_key b) = Some b)
       \<and> (distinct (map (reg_index K) regs) \<longrightarrow>
            db_type_by_num T' ! nat (reg_index K b) = Some b)"
  using assms
proof (induction regs arbitrary: T)
  case Nil
  then show ?case by simp
next
  case (Cons a regs)
  let ?T1 = "T \<lparr> db_type_by_num := (db_type_by_num T)[nat (reg_index K a) := Some a],
                 db_type_by_ora_name := (db_type_by_ora_name T)(ora_name a \<mapsto> a),
                 db_type_by_ora_type_num := (db_type_by_ora_type_num T)(ora_key a \<mapsto> a) \<rparr>"
  have v: "\<forall>b \<in> set regs. valid_registration K (length (db_type_by_num ?T1)) b"
    using Cons.prems by simp
  have r: "register_all K regs ?T1 = Inr T'"
    using Cons.prems by (simp add: DbType_init_valid)
  show ?case
  proof (cases "b \<in> set regs")
    case True
    from Cons.IH [OF v r True] show ?thesis by simp
  next
    case False
    then have ba: "b = a" using Cons.prems(3) by simp
    have va: "valid_registration K (length (db_type_by_num T)) a"
      using Cons.prems(1) by simp
    have idx: "nat (reg_index K a) < length (db_type_by_num T)"
      using va by (auto simp: valid_registration_def)
    have inj: "\<And>c. c \<in> set regs \<Longrightarrow> reg_index K c \<noteq> reg_index K a \<Longrightarrow>
                  nat (reg_index K c) \<noteq> nat (reg_index K a)"
      using va Cons.prems(1) by (auto simp: valid_registration_def)
    have k: "distinct (map ora_key (a # regs)) \<longrightarrow>
               db_type_by_ora_type_num T' (ora_key a) = Some a"
      using register_all_keeps [OF v r, of "ora_key a"] by auto
    have i: "distinct (map (reg_index K) (a # regs)) \<longrightarrow>
               db_type_by_num T' ! nat (reg_index K a) = Some a"
    proof
      assume d: "distinct (map (reg_index K) (a # regs))"
      then have "reg_index K a \<notin> reg_index K ` set regs"
        by simp
      then have ne: "\<forall>c \<in> set regs. reg_index K c \<noteq> reg_index K a"
        by (metis imageI)
      have "nat (reg_index K a) \<notin> (\<lambda>a. nat (reg_index K a)) ` set regs"
      proof
        assume "nat (reg_index K a) \<in> (\<lambda>a. nat (reg_index K a)) ` set regs"
        then obtain c where c: "c \<in> set regs" "nat (reg_index K a) = nat (reg_index K c)"
          by auto
        with ne inj [of c] show False by simp
      qed
      then have "db_type_by_num T' ! nat (reg_index K a) = db_type_by_num ?T1 ! nat (reg_index K a)"
        using register_all_keeps [OF v r, of _ "nat (reg_index K a)"] by blast
      then show "db_type_by_num T' ! nat (reg_index K a) = Some a"
        using idx by simp
    qed
    show ?thesis using k i ba by simp
  qed
qed

lemma module_init_tables:
  assumes "module_init K = Inr T"
  shows "\<exists>T0. register_all K (registrations K) (initial_tables K) = Inr T0
             \<and> db_type_by_num T = db_type_by_num T0
             \<and> db_type_by_ora_type_num T = db_type_by_ora_type_num T0"
  using assms
  by (auto simp: module_init_def add_alias_def split: sum.splits)

lemma register_all_length:
  "register_all K regs T = Inr T' \<Longrightarrow> length (db_type_by_num T') = length (db_type_by_num T)"
proof (induction regs arbitrary: T)
  case Nil
  then show ?case by simp
next
  case (Cons a regs)
  then show ?case
    by (auto simp: DbType_init_def Let_def py_list_set_def split: sum.splits if_splits)
qed

lemma module_init_length:
  assumes "module_init K = Inr T"
  shows "length (db_type_by_num T) = nat (DB_TYPE_NUM_MAX K - DB_TYPE_NUM_MIN K + 1)"
proof -
  from module_init_tables [OF assms] obtain T0 where
    "register_all K (registrations K) (initial_tables K) = Inr T0"
    "db_type_by_num T = db_type_by_num T0" by blast
  then show ?thesis
    using register_all_length [of K "registrations K" "initial_tables K" T0]
    by (simp add: initial_tables_def)
qed

lemma from_num_index:
  assumes "0 \<le> i" "i < 2 ^ 32" "0 \<le> DB_TYPE_NUM_MIN K" "i + DB_TYPE_NUM_MIN K < 2 ^ 32"
    "i + DB_TYPE_NUM_MIN K \<noteq> 0"
  shows "from_num K T (word_of_int (i + DB_TYPE_NUM_MIN K)) =
           (if nat i < length (db_type_by_num T) then Inr (db_type_by_num T ! nat i)
            else Inl IndexError)"
proof -
  have nz: "(word_of_int (i + DB_TYPE_NUM_MIN K) :: 32 word) \<noteq> 0"
  proof
    assume "(word_of_int (i + DB_TYPE_NUM_MIN K) :: 32 word) = 0"
    then have "(2 :: int) ^ 32 dvd i + DB_TYPE_NUM_MIN K"
      by (simp only: word_of_int_eq_0_iff) simp
    then have "(i + DB_TYPE_NUM_MIN K) mod 2 ^ 32 = 0"
      by (simp add: mod_eq_0_iff_dvd)
    with assms show False by simp
  qed
  have sub: "(word_of_int (i + DB_TYPE_NUM_MIN K) :: 32 word) - word_of_int (DB_TYPE_NUM_MIN K)
             = word_of_int i"
    by simp
  have un: "unat (word_of_int i :: 32 word) = nat i"
    using assms(1,2) by (simp add: unat_eq_nat_uint uint_word_of_int)
  show ?thesis
    using nz by (simp add: from_num_def Let_def sub list_get_u32_def un)
qed

text \<open>
  Claim C9, the lookup by number of a type that was not registered.
  \<^verbatim>\<open>DbType._from_num\<close> never raises \<^verbatim>\<open>ERR_ORACLE_TYPE_NOT_SUPPORTED\<close>: the table
  is a list, so the lookup raises \<^verbatim>\<open>IndexError\<close>, which \<^verbatim>\<open>except KeyError\<close> lets
  through, or returns the entry. After the module initialisation the number one past
  \<^verbatim>\<open>DB_TYPE_NUM_MAX\<close> raises \<^verbatim>\<open>IndexError\<close>, and a number between
  \<^verbatim>\<open>DB_TYPE_NUM_MIN\<close> and \<^verbatim>\<open>DB_TYPE_NUM_MAX\<close> that no registration uses returns
  \<^verbatim>\<open>None\<close>.
\<close>

theorem from_num_unregistered_not_reported:
  "from_num K T n \<noteq> Inl (ERR_ORACLE_TYPE_NOT_SUPPORTED k)
   \<and> (module_init K = Inr T \<and> 0 \<le> DB_TYPE_NUM_MIN K
        \<and> DB_TYPE_NUM_MIN K \<le> DB_TYPE_NUM_MAX K \<and> DB_TYPE_NUM_MAX K + 1 < 2 ^ 32
        \<longrightarrow> from_num K T (word_of_int (DB_TYPE_NUM_MAX K + 1)) = Inl IndexError)
   \<and> (module_init K = Inr T \<and> 0 \<le> DB_TYPE_NUM_MIN K \<and> DB_TYPE_NUM_MAX K < 2 ^ 32
        \<and> (\<forall>a \<in> set (registrations K).
              valid_registration K (nat (DB_TYPE_NUM_MAX K - DB_TYPE_NUM_MIN K + 1)) a)
        \<and> DB_TYPE_NUM_MIN K < j \<and> j \<le> DB_TYPE_NUM_MAX K
        \<and> j - DB_TYPE_NUM_MIN K \<notin> reg_index K ` set (registrations K)
        \<longrightarrow> from_num K T (word_of_int j) = Inr None)"
proof -
  have a: "from_num K T n \<noteq> Inl (ERR_ORACLE_TYPE_NOT_SUPPORTED k)"
    by (simp add: from_num_def Let_def list_get_u32_def)
  have b: "from_num K T (word_of_int (DB_TYPE_NUM_MAX K + 1)) = Inl IndexError"
    if h: "module_init K = Inr T" "0 \<le> DB_TYPE_NUM_MIN K"
      "DB_TYPE_NUM_MIN K \<le> DB_TYPE_NUM_MAX K" "DB_TYPE_NUM_MAX K + 1 < 2 ^ 32"
  proof -
    let ?i = "DB_TYPE_NUM_MAX K + 1 - DB_TYPE_NUM_MIN K"
    have len: "length (db_type_by_num T) = nat ?i"
      using module_init_length [OF h(1)] by (simp add: algebra_simps)
    have "from_num K T (word_of_int (?i + DB_TYPE_NUM_MIN K)) =
            (if nat ?i < length (db_type_by_num T) then Inr (db_type_by_num T ! nat ?i)
             else Inl IndexError)"
      using h by (intro from_num_index) simp_all
    then show ?thesis by (simp add: len)
  qed
  have c: "from_num K T (word_of_int j) = Inr None"
    if h: "module_init K = Inr T" "0 \<le> DB_TYPE_NUM_MIN K" "DB_TYPE_NUM_MAX K < 2 ^ 32"
      "\<forall>a \<in> set (registrations K).
          valid_registration K (nat (DB_TYPE_NUM_MAX K - DB_TYPE_NUM_MIN K + 1)) a"
      "DB_TYPE_NUM_MIN K < j" "j \<le> DB_TYPE_NUM_MAX K"
      "j - DB_TYPE_NUM_MIN K \<notin> reg_index K ` set (registrations K)"
  proof -
    let ?i = "j - DB_TYPE_NUM_MIN K"
    let ?n = "nat (DB_TYPE_NUM_MAX K - DB_TYPE_NUM_MIN K + 1)"
    from module_init_tables [OF h(1)] obtain T0 where
      T0: "register_all K (registrations K) (initial_tables K) = Inr T0"
        "db_type_by_num T = db_type_by_num T0" by blast
    have v: "\<forall>a \<in> set (registrations K).
               valid_registration K (length (db_type_by_num (initial_tables K))) a"
      using h(4) by (simp add: initial_tables_def)
    have "nat ?i \<notin> (\<lambda>a. nat (reg_index K a)) ` set (registrations K)"
    proof
      assume "nat ?i \<in> (\<lambda>a. nat (reg_index K a)) ` set (registrations K)"
      then obtain a where a: "a \<in> set (registrations K)" "nat ?i = nat (reg_index K a)"
        by auto
      then have "0 \<le> reg_index K a"
        using h(4) by (auto simp: valid_registration_def)
      with a(2) h(5) have "?i = reg_index K a" by simp
      with a(1) h(7) show False by blast
    qed
    then have "db_type_by_num T0 ! nat ?i = db_type_by_num (initial_tables K) ! nat ?i"
      using register_all_keeps [OF v T0(1), of _ "nat ?i"] by blast
    moreover have "nat ?i < ?n" using h(5,6) by simp
    ultimately have none: "db_type_by_num T ! nat ?i = None"
      by (simp add: T0(2) initial_tables_def)
    have len: "length (db_type_by_num T) = ?n"
      using module_init_length [OF h(1)] .
    have "from_num K T (word_of_int (?i + DB_TYPE_NUM_MIN K)) =
            (if nat ?i < length (db_type_by_num T) then Inr (db_type_by_num T ! nat ?i)
             else Inl IndexError)"
      using h by (intro from_num_index) simp_all
    then show ?thesis
      using none len \<open>nat ?i < ?n\<close> by simp
  qed
  show ?thesis using a b c by blast
qed

lemma example_registrations_valid:
  "\<forall>a \<in> set (registrations example_base_constants). valid_registration example_base_constants 34 a"
  by (simp add: registrations_def dbt_def DB_TYPE_NUMBER_def DB_TYPE_BOOLEAN_def
        DB_TYPE_BINARY_INTEGER_def example_base_constants_def valid_registration_def
        ora_key_def reg_index_def)

lemma example_module_init:
  "\<exists>T. module_init example_base_constants = Inr T"
proof -
  have "\<forall>a \<in> set (registrations example_base_constants).
          valid_registration example_base_constants
            (length (db_type_by_num (initial_tables example_base_constants))) a"
    using example_registrations_valid by (simp add: initial_tables_def example_base_constants_def)
  from register_all_succeeds [OF this] show ?thesis
    by (auto simp: module_init_def)
qed

theorem from_num_unregistered_not_reported_witness:
  "\<exists>T. module_init example_base_constants = Inr T
      \<and> from_num example_base_constants T 2034 = Inl IndexError
      \<and> from_num example_base_constants T 2026 = Inr None"
proof -
  obtain T where T: "module_init example_base_constants = Inr T"
    using example_module_init by blast
  have free: "2026 - DB_TYPE_NUM_MIN example_base_constants
                \<notin> reg_index example_base_constants ` set (registrations example_base_constants)"
    by (simp add: registrations_def dbt_def DB_TYPE_NUMBER_def DB_TYPE_BOOLEAN_def
          DB_TYPE_BINARY_INTEGER_def example_base_constants_def reg_index_def)
  have valid: "\<forall>a \<in> set (registrations example_base_constants).
                 valid_registration example_base_constants
                   (nat (DB_TYPE_NUM_MAX example_base_constants
                         - DB_TYPE_NUM_MIN example_base_constants + 1)) a"
    using example_registrations_valid by (simp add: example_base_constants_def)
  have "from_num example_base_constants T 2034 = Inl IndexError"
    using from_num_unregistered_not_reported [of example_base_constants T 0 0 2026] T
    by (simp add: example_base_constants_def)
  moreover have "from_num example_base_constants T 2026 = Inr None"
    using from_num_unregistered_not_reported [of example_base_constants T 0 0 2026] T free valid
    by (simp add: example_base_constants_def)
  ultimately show ?thesis using T by blast
qed

lemma DbType_init_ora:
  assumes "DbType_init K (num a) (name a) (ora_name a) (native_num a) (ora_type_num a)
             (default_size a) (csfrm a) (buffer_size_factor a) T = Inr (x, T1)"
  shows "x = a \<and> db_type_by_ora_type_num T1 = (db_type_by_ora_type_num T)(ora_key a \<mapsto> a)"
proof -
  have self: "\<lparr> num = num a, name = name a, default_size = default_size a,
                 native_num = native_num a, ora_name = ora_name a,
                 ora_type_num = ora_type_num a, csfrm = csfrm a,
                 buffer_size_factor = buffer_size_factor a \<rparr> = a"
    by (cases a) simp
  show ?thesis
    using assms unfolding DbType_init_def Let_def self
    by (auto simp: ora_key_def split: if_splits sum.splits)
qed

lemma register_all_ora_keeps:
  "register_all K regs T = Inr T' \<Longrightarrow> k \<notin> ora_key ` set regs \<Longrightarrow>
   db_type_by_ora_type_num T' k = db_type_by_ora_type_num T k"
proof (induction regs arbitrary: T)
  case Nil
  then show ?case by simp
next
  case (Cons a regs)
  from Cons.prems(1) obtain x T1 where
    i: "DbType_init K (num a) (name a) (ora_name a) (native_num a) (ora_type_num a)
          (default_size a) (csfrm a) (buffer_size_factor a) T = Inr (x, T1)"
    and r: "register_all K regs T1 = Inr T'"
    by (auto split: sum.splits)
  from Cons.IH [OF r] Cons.prems(2) DbType_init_ora [OF i] show ?case
    by simp
qed

lemma register_all_ora_finds:
  "register_all K regs T = Inr T' \<Longrightarrow> distinct (map ora_key regs) \<Longrightarrow> b \<in> set regs \<Longrightarrow>
   db_type_by_ora_type_num T' (ora_key b) = Some b"
proof (induction regs arbitrary: T)
  case Nil
  then show ?case by simp
next
  case (Cons a regs)
  from Cons.prems(1) obtain x T1 where
    i: "DbType_init K (num a) (name a) (ora_name a) (native_num a) (ora_type_num a)
          (default_size a) (csfrm a) (buffer_size_factor a) T = Inr (x, T1)"
    and r: "register_all K regs T1 = Inr T'"
    by (auto split: sum.splits)
  show ?case
  proof (cases "b \<in> set regs")
    case True
    with Cons.IH [OF r] Cons.prems(2) show ?thesis by simp
  next
    case False
    with Cons.prems(3) have "b = a" by simp
    moreover have "ora_key a \<notin> ora_key ` set regs"
      using Cons.prems(2) by simp
    ultimately show ?thesis
      using register_all_ora_keeps [OF r] DbType_init_ora [OF i] by simp
  qed
qed

lemma registrations_ora_keys:
  "distinct (map ora_key (registrations K))
   \<and> (\<forall>a \<in> set (registrations K).
         0 \<le> ora_type_num a \<and> ora_type_num a < 256 \<and> 0 \<le> csfrm a \<and> csfrm a < 256)"
  by (simp add: registrations_def dbt_def DB_TYPE_NUMBER_def DB_TYPE_BOOLEAN_def
        DB_TYPE_BINARY_INTEGER_def ora_key_def)

text \<open>
  The lookup by Oracle type number and character set form, after the module
  initialisation: every registered type is found under its own pair, and a pair under
  which no type was registered raises \<^verbatim>\<open>ERR_ORACLE_TYPE_NOT_SUPPORTED\<close>.
\<close>

theorem ora_type_lookup_round_trip:
  assumes "module_init K = Inr T"
  shows "(\<forall>a \<in> set (registrations K).
            from_ora_type_and_csfrm T (word_of_int (ora_type_num a)) (word_of_int (csfrm a))
              = Inr a)
       \<and> (\<forall>t c. uint c * 256 + uint t \<notin> ora_key ` set (registrations K) \<longrightarrow>
            from_ora_type_and_csfrm T t c = Inl (ERR_ORACLE_TYPE_NOT_SUPPORTED (uint t)))"
proof -
  from module_init_tables [OF assms] obtain T0 where
    T0: "register_all K (registrations K) (initial_tables K) = Inr T0"
      "db_type_by_ora_type_num T = db_type_by_ora_type_num T0" by blast
  have hit: "from_ora_type_and_csfrm T (word_of_int (ora_type_num a)) (word_of_int (csfrm a))
              = Inr a" if a: "a \<in> set (registrations K)" for a
  proof -
    have b: "0 \<le> ora_type_num a" "ora_type_num a < 256" "0 \<le> csfrm a" "csfrm a < 256"
      using registrations_ora_keys a by blast+
    have u: "uint (word_of_int (ora_type_num a) :: 8 word) = ora_type_num a"
      "uint (word_of_int (csfrm a) :: 8 word) = csfrm a"
      using b by (simp_all add: uint_word_of_int)
    have "db_type_by_ora_type_num T (ora_key a) = Some a"
      using register_all_ora_finds [OF T0(1) _ a] registrations_ora_keys T0(2) by simp
    then show ?thesis
      by (simp add: from_ora_type_and_csfrm_def Let_def u dict_get_def ora_key_def)
  qed
  have miss: "from_ora_type_and_csfrm T t c = Inl (ERR_ORACLE_TYPE_NOT_SUPPORTED (uint t))"
    if k: "uint c * 256 + uint t \<notin> ora_key ` set (registrations K)" for t c
  proof -
    have "db_type_by_ora_type_num T (uint c * 256 + uint t) = None"
      using register_all_ora_keeps [OF T0(1) k] T0(2) by (simp add: initial_tables_def)
    then show ?thesis
      by (simp add: from_ora_type_and_csfrm_def Let_def dict_get_def)
  qed
  show ?thesis using hit miss by blast
qed

theorem ora_type_lookup_round_trip_witness:
  "\<exists>T. module_init example_base_constants = Inr T
      \<and> from_ora_type_and_csfrm T 109 1 =
          Inr (dbt 2032 ''DB_TYPE_XMLTYPE'' ''XMLTYPE'' 3004 109 0 1 2147483647)
      \<and> from_ora_type_and_csfrm T 109 2 = Inl (ERR_ORACLE_TYPE_NOT_SUPPORTED 109)"
proof -
  obtain T where T: "module_init example_base_constants = Inr T"
    using example_module_init by blast
  have m: "dbt 2032 ''DB_TYPE_XMLTYPE'' ''XMLTYPE'' 3004 109 0 1 2147483647
             \<in> set (registrations example_base_constants)"
    by (simp add: registrations_def example_base_constants_def)
  have k: "uint (2 :: 8 word) * 256 + uint (109 :: 8 word)
             \<notin> ora_key ` set (registrations example_base_constants)"
    by (simp add: registrations_def dbt_def DB_TYPE_NUMBER_def DB_TYPE_BOOLEAN_def
          DB_TYPE_BINARY_INTEGER_def ora_key_def)
  have "from_ora_type_and_csfrm T 109 1 =
          Inr (dbt 2032 ''DB_TYPE_XMLTYPE'' ''XMLTYPE'' 3004 109 0 1 2147483647)"
    using ora_type_lookup_round_trip [OF T] m by (fastforce simp: dbt_def)
  moreover have "from_ora_type_and_csfrm T 109 2 = Inl (ERR_ORACLE_TYPE_NOT_SUPPORTED 109)"
    using ora_type_lookup_round_trip [OF T] k by fastforce
  ultimately show ?thesis using T by blast
qed

text \<open>
  The lookup by number, after the module initialisation: when the numbers of the
  registered types lie in the table and no two of them share a place,
  \<^verbatim>\<open>DbType._from_num\<close> applied to the number of a registered type returns that type.
\<close>

theorem from_num_round_trip:
  assumes "module_init K = Inr T"
    and "\<forall>a \<in> set (registrations K).
           valid_registration K (nat (DB_TYPE_NUM_MAX K - DB_TYPE_NUM_MIN K + 1)) a
           \<and> 0 \<le> num a \<and> num a < 2 ^ 32"
    and "distinct (map (reg_index K) (registrations K))"
    and "0 < DB_TYPE_NUM_MIN K"
    and "a \<in> set (registrations K)"
  shows "from_num K T (word_of_int (num a)) = Inr (Some a)"
proof -
  let ?n = "nat (DB_TYPE_NUM_MAX K - DB_TYPE_NUM_MIN K + 1)"
  from module_init_tables [OF assms(1)] obtain T0 where
    T0: "register_all K (registrations K) (initial_tables K) = Inr T0"
      "db_type_by_num T = db_type_by_num T0" by blast
  have v: "\<forall>a \<in> set (registrations K).
             valid_registration K (length (db_type_by_num (initial_tables K))) a"
    using assms(2) by (simp add: initial_tables_def)
  have entry: "db_type_by_num T ! nat (reg_index K a) = Some a"
    using register_all_finds [OF v T0(1) assms(5)] assms(3) T0(2) by simp
  have va: "valid_registration K ?n a" "0 \<le> num a" "num a < 2 ^ 32"
    using assms(2,5) by blast+
  have len: "length (db_type_by_num T) = ?n"
    using module_init_length [OF assms(1)] .
  have range: "0 \<le> reg_index K a" "nat (reg_index K a) < ?n"
    using va(1) by (auto simp: valid_registration_def split: if_splits)
  show ?thesis
  proof (cases "num a = 0")
    case True
    then have "reg_index K a = 0" by (simp add: reg_index_def)
    with entry range len True show ?thesis
      by (simp add: from_num_def Let_def list_get_u32_def)
  next
    case False
    then have ri: "reg_index K a = num a - DB_TYPE_NUM_MIN K" by (simp add: reg_index_def)
    have "from_num K T (word_of_int (reg_index K a + DB_TYPE_NUM_MIN K)) =
            (if nat (reg_index K a) < length (db_type_by_num T)
             then Inr (db_type_by_num T ! nat (reg_index K a)) else Inl IndexError)"
      using range(1) va(2,3) assms(4) False ri by (intro from_num_index) simp_all
    then show ?thesis
      using entry range(2) len ri by simp
  qed
qed

theorem from_num_round_trip_witness:
  "\<exists>T. module_init example_base_constants = Inr T
      \<and> from_num example_base_constants T 2010 = Inr (Some (DB_TYPE_NUMBER example_base_constants))
      \<and> from_num example_base_constants T 0 =
          Inr (Some (dbt 0 ''DB_TYPE_UNKNOWN'' ''UNKNOWN'' 0 0 0 0 0))"
proof -
  obtain T where T: "module_init example_base_constants = Inr T"
    using example_module_init by blast
  have valid: "\<forall>a \<in> set (registrations example_base_constants).
                 valid_registration example_base_constants
                   (nat (DB_TYPE_NUM_MAX example_base_constants
                         - DB_TYPE_NUM_MIN example_base_constants + 1)) a
                 \<and> 0 \<le> num a \<and> num a < 2 ^ 32"
    by (simp add: registrations_def dbt_def DB_TYPE_NUMBER_def DB_TYPE_BOOLEAN_def
          DB_TYPE_BINARY_INTEGER_def example_base_constants_def valid_registration_def
          ora_key_def reg_index_def)
  have dist: "distinct (map (reg_index example_base_constants) (registrations example_base_constants))"
    by (simp add: registrations_def dbt_def DB_TYPE_NUMBER_def DB_TYPE_BOOLEAN_def
          DB_TYPE_BINARY_INTEGER_def example_base_constants_def reg_index_def)
  have pos: "0 < DB_TYPE_NUM_MIN example_base_constants"
    by (simp add: example_base_constants_def)
  have m1: "DB_TYPE_NUMBER example_base_constants \<in> set (registrations example_base_constants)"
    by (simp add: registrations_def)
  have m2: "dbt 0 ''DB_TYPE_UNKNOWN'' ''UNKNOWN'' 0 0 0 0 0
              \<in> set (registrations example_base_constants)"
    by (simp add: registrations_def example_base_constants_def)
  have "from_num example_base_constants T 2010 = Inr (Some (DB_TYPE_NUMBER example_base_constants))"
    using from_num_round_trip [OF T valid dist pos m1]
    by (simp add: DB_TYPE_NUMBER_def dbt_def example_base_constants_def)
  moreover have "from_num example_base_constants T 0 =
          Inr (Some (dbt 0 ''DB_TYPE_UNKNOWN'' ''UNKNOWN'' 0 0 0 0 0))"
    using from_num_round_trip [OF T valid dist pos m2] by (simp add: dbt_def)
  ultimately show ?thesis using T by blast
qed

end
